theory Spec2Isabelle
  imports Main
begin

section \<open>Data model\<close>

text \<open>
  The orchestrator of \<^verbatim>\<open>codewhisperer/commands/startTransformByQ.ts\<close> works on three
  module-level mutable objects: \<^verbatim>\<open>transformByQState\<close> (the job state), \<^verbatim>\<open>sessionPlanProgress\<close>
  (the four step-progress entries) and \<^verbatim>\<open>sessionJobHistory\<close>, plus the telemetry state. They
  are modelled as one record \<open>world\<close> that every function takes and returns. A JavaScript
  exception is the \<open>Inl\<close> branch of a sum; the world that the function had reached when it
  threw is returned beside it, since a \<^verbatim>\<open>throw\<close> does not undo the assignments before it.
\<close>

text \<open>
  Modelled from the spec: the enum \<^verbatim>\<open>StepProgress\<close> of \<^verbatim>\<open>models/model\<close> (not among the
  sources). The orchestrator uses its members \<^verbatim>\<open>Pending\<close>, \<^verbatim>\<open>Succeeded\<close> and \<^verbatim>\<open>Failed\<close>;
  the last two are written \<open>StepSucceeded\<close> and \<open>StepFailed\<close> to keep them apart from the
  job status of the same name.
\<close>

datatype StepProgress = Pending | StepSucceeded | StepFailed

text \<open>
  Modelled from the spec: the lifecycle status held by \<^verbatim>\<open>transformByQState\<close> (section 3 of
  the specification: NotStarted, Running, Succeeded, PartiallySucceeded, Failed, Cancelled).
\<close>

datatype TransformByQStatus =
  NotStarted | Running | Succeeded | PartiallySucceeded | Failed | Cancelled

text \<open>
  Modelled from the spec: the class of \<^verbatim>\<open>transformByQState\<close> (section 3, JobState) lives
  in \<^verbatim>\<open>models/model\<close>, which is not among the sources; its setters and getters are taken
  to be plain field accesses. Only the fields that the orchestrator reads or writes are kept.
\<close>

record TransformByQState =
  jobStatus :: TransformByQStatus
  jobId :: string
  projectName :: string
  projectPath :: string
  mavenName :: string
  payloadFilePath :: string
  planFilePath :: string
  jobFailureErrorMessage :: string
  jobFailureMetadata :: string

text \<open>The object \<^verbatim>\<open>sessionPlanProgress\<close> with its four keys.\<close>

record sessionPlanProgress =
  startJob_step :: StepProgress
  buildCode_step :: StepProgress
  generatePlan_step :: StepProgress
  transformCode_step :: StepProgress

text \<open>
  An element of \<^verbatim>\<open>sessionJobHistory\<close>:
  \<^verbatim>\<open>{ timestamp: string; module: string; status: string; duration: string; id: string }\<close>.
  The field \<^verbatim>\<open>id\<close> is written \<open>id'\<close> (\<open>id\<close> is the identity function of HOL).
\<close>

record historyEntry =
  timestamp :: string
  module :: string
  status :: string
  duration :: string
  id' :: string

text \<open>
  What the orchestrator does to the outside, in the order it does it: host commands, remote
  operations of the transfer client, notifications, file operations, telemetry. Logging
  (\<^verbatim>\<open>getLogger()\<close>) and the payload of telemetry events are left out.
\<close>

datatype event =
    ExecuteCommand string
  | SetContext string bool
  | ZipCode
  | UploadPayload string
  | StartJob string
  | PollTransformationJob string "string list"
  | GetTransformationPlan string
  | StopTransformation string
  | Sleep nat
  | GetVersionData
  | WriteFileSync string string
  | RmSync string
  | ShowErrorMessage string string
  | ShowInformationMessage string "string list"
  | TransformationFinished
  | TelemetryEmit string
  | SetInterval
  | ClearInterval

text \<open>
  \<^verbatim>\<open>TransformByQStoppedError\<close> is the error of a cancellation check; every other exception
  is an \<^verbatim>\<open>Error\<close> with its message.
\<close>

datatype error = TransformByQStoppedError | Error string

text \<open>
  The world: the three module-level objects, the telemetry state
  (\<^verbatim>\<open>codeTransformTelemetryState\<close>: result status and start time), a counter of the suspension
  points passed so far, and the log of effects. Each effect is logged with the job status at
  the moment it was issued.
\<close>

record world =
  job :: TransformByQState
  progress :: sessionPlanProgress
  history :: "historyEntry list"
  resultStatus :: string
  startTime :: nat
  tick :: nat
  trace :: "(TransformByQStatus \<times> event) list"

text \<open>
  Everything that the sources do not contain is a parameter: the constants of
  \<^verbatim>\<open>models/constants\<close>, the helpers of \<^verbatim>\<open>textUtilities\<close> and of the telemetry modules, the
  outcome of every operation of the transfer client (\<^verbatim>\<open>transformApiHandler\<close>) and of the
  remote service, and the user. An outcome may depend on the whole world at the moment the
  operation completes. Following section 3 of the specification (the job state is mutated by
  the orchestrator only), such an operation returns or throws and changes nothing in the
  world. \<open>cancelAt env k = Some j\<close> says that the user invokes \<^verbatim>\<open>stopTransformByQ(j)\<close> while
  the orchestrator is suspended at its \<open>k\<close>-th suspension point.

  The operations whose failure the orchestrator handles (\<^verbatim>\<open>zipCode\<close>, \<^verbatim>\<open>uploadPayload\<close>,
  \<^verbatim>\<open>startJob\<close>, \<^verbatim>\<open>pollTransformationJob\<close>, \<^verbatim>\<open>getTransformationPlan\<close> and the remote stop) may
  throw. The host operations that it awaits outside any \<^verbatim>\<open>try\<close> of its own
  (\<^verbatim>\<open>vscode.commands.executeCommand\<close>, \<^verbatim>\<open>getVersionData\<close>, \<^verbatim>\<open>sleep\<close>, the file operations) are
  taken to return. The periodic refresh that \<^verbatim>\<open>setInterval\<close> installs touches the view only
  and is logged as one effect.
\<close>

record env =
  failedToStartJobMessage :: string
  failedToCompleteJobMessage :: string
  transformByQCancelledMessage :: string
  errorStoppingJobMessage :: string
  transformByQCompletedMessage :: string
  transformByQPartiallyCompletedMessage :: string
  amazonQFeedbackText :: string
  validStatesForPlanGenerated :: "string list"
  validStatesForCheckingDownloadUrl :: "string list"
  tmpPlanFilePath :: string
  encodeHTML :: "string \<Rightarrow> string"
  convertToTimeString :: "nat \<Rightarrow> string"
  convertDateToTimestamp :: "nat \<Rightarrow> string"
  statusText :: "TransformByQStatus \<Rightarrow> string"
  clock :: "world \<Rightarrow> nat"
  calculateTotalLatency :: "world \<Rightarrow> nat \<Rightarrow> nat"
  jobDefaults :: "TransformByQState \<Rightarrow> TransformByQState"
  zipCode :: "world \<Rightarrow> error + string"
  uploadPayload :: "world \<Rightarrow> string \<Rightarrow> error + string"
  startJob :: "world \<Rightarrow> string \<Rightarrow> error + string"
  pollTransformationJob :: "world \<Rightarrow> string \<Rightarrow> string list \<Rightarrow> error + string"
  getTransformationPlan :: "world \<Rightarrow> string \<Rightarrow> error + string"
  stopTransformation :: "world \<Rightarrow> string \<Rightarrow> error option"
  cancelAt :: "nat \<Rightarrow> string option"

section \<open>The job state's accessors\<close>

definition isRunning :: "world \<Rightarrow> bool" where
  "isRunning w = (jobStatus (job w) = Running)"

definition isCancelled :: "world \<Rightarrow> bool" where
  "isCancelled w = (jobStatus (job w) = Cancelled)"

definition isSucceeded :: "world \<Rightarrow> bool" where
  "isSucceeded w = (jobStatus (job w) = Succeeded)"

definition isPartiallySucceeded :: "world \<Rightarrow> bool" where
  "isPartiallySucceeded w = (jobStatus (job w) = PartiallySucceeded)"

definition setStatus :: "TransformByQStatus \<Rightarrow> world \<Rightarrow> world" where
  "setStatus s w = w\<lparr>job := (job w)\<lparr>jobStatus := s\<rparr>\<rparr>"

definition setJobId :: "string \<Rightarrow> world \<Rightarrow> world" where
  "setJobId j w = w\<lparr>job := (job w)\<lparr>jobId := j\<rparr>\<rparr>"

definition setPayloadFilePath :: "string \<Rightarrow> world \<Rightarrow> world" where
  "setPayloadFilePath p w = w\<lparr>job := (job w)\<lparr>payloadFilePath := p\<rparr>\<rparr>"

definition setPlanFilePath :: "string \<Rightarrow> world \<Rightarrow> world" where
  "setPlanFilePath p w = w\<lparr>job := (job w)\<lparr>planFilePath := p\<rparr>\<rparr>"

definition setJobFailureErrorMessage :: "string \<Rightarrow> world \<Rightarrow> world" where
  "setJobFailureErrorMessage m w = w\<lparr>job := (job w)\<lparr>jobFailureErrorMessage := m\<rparr>\<rparr>"

definition setResultStatus :: "string \<Rightarrow> world \<Rightarrow> world" where
  "setResultStatus s w = w\<lparr>resultStatus := s\<rparr>"

text \<open>An effect is appended to the log with the job status of the moment.\<close>

definition emit :: "event \<Rightarrow> world \<Rightarrow> world" where
  "emit ev w = w\<lparr>trace := trace w @ [(jobStatus (job w), ev)]\<rparr>"

text \<open>
  Modelled from the spec: \<^verbatim>\<open>throwIfCancelled\<close> of \<^verbatim>\<open>transformApiHandler\<close> (section 7: the
  cancellation error is raised by any cancellation check; the test
  \<^verbatim>\<open>WHEN job status is cancelled THEN error is thrown\<close> expects \<^verbatim>\<open>TransformByQStoppedError\<close>).
\<close>

definition throwIfCancelled :: "world \<Rightarrow> error + unit" where
  "throwIfCancelled w = (if isCancelled w then Inl TransformByQStoppedError else Inr ())"

section \<open>The transfer client, from the specification\<close>

text \<open>
  Modelled from the spec: \<^verbatim>\<open>getHeadersObj\<close> of \<^verbatim>\<open>transformApiHandler\<close> is not among the
  sources; only its two tests are. Section 6: the headers are exactly
  \<^verbatim>\<open>x-amz-checksum-sha256\<close>, \<^verbatim>\<open>Content-Type: application/zip\<close> and, only if a KMS key ARN
  is provided, \<^verbatim>\<open>x-amz-server-side-encryption: aws:kms\<close> and
  \<^verbatim>\<open>x-amz-server-side-encryption-aws-kms-key-id: <arn>\<close>. The returned object is a map from
  header names to values.
\<close>

definition getHeadersObj :: "string \<Rightarrow> string \<Rightarrow> (string \<rightharpoonup> string)" where
  "getHeadersObj sha256 kmsKeyArn =
     (if kmsKeyArn = []
      then [''x-amz-checksum-sha256'' \<mapsto> sha256,
            ''Content-Type'' \<mapsto> ''application/zip'']
      else [''x-amz-checksum-sha256'' \<mapsto> sha256,
            ''Content-Type'' \<mapsto> ''application/zip'',
            ''x-amz-server-side-encryption'' \<mapsto> ''aws:kms'',
            ''x-amz-server-side-encryption-aws-kms-key-id'' \<mapsto> kmsKeyArn])"

text \<open>
  Modelled from the spec: \<^verbatim>\<open>stopJob\<close> of \<^verbatim>\<open>transformApiHandler\<close> is not among the sources;
  only its two tests are. Section 4.2: \<^verbatim>\<open>stop(jobId)\<close> requests cancellation of an in-flight
  job; with an empty \<^verbatim>\<open>jobId\<close> it is a no-op and issues no remote call. The remote call is
  the effect \<open>StopTransformation jobId\<close>; when the service fails, its error is thrown.
\<close>

definition stopJob :: "env \<Rightarrow> string \<Rightarrow> world \<Rightarrow> (error + unit) \<times> world" where
  "stopJob env jobId' w =
     (if jobId' = [] then (Inr (), w)
      else
        let w1 = emit (StopTransformation jobId') w in
        (case stopTransformation env w1 jobId' of
           Some e \<Rightarrow> (Inl e, w1)
         | None \<Rightarrow> (Inr (), w1)))"

section \<open>The orchestrator\<close>

subsection \<open>Cancellation by the user\<close>

text \<open>
  \<^verbatim>\<open>stopTransformByQ(jobId, cancelSrc)\<close>, run to its end: its own three \<^verbatim>\<open>await\<close>s are
  logged in order, and what the main sequence does while it is suspended in them is not
  interleaved. The function never re-throws: the \<^verbatim>\<open>catch\<close> around \<^verbatim>\<open>stopJob\<close> shows a second
  kind of notification instead.
\<close>

definition stopTransformByQ :: "env \<Rightarrow> string \<Rightarrow> world \<Rightarrow> (error + unit) \<times> world" where
  "stopTransformByQ env jobId' w =
     (if isRunning w then
        let w1 = setStatus Cancelled w;
            w2 = setResultStatus ''JobCancelled'' w1;
            w3 = emit (ExecuteCommand ''aws.amazonq.refresh'') w2;
            w4 = emit (SetContext ''gumby.isStopButtonAvailable'' False) w3;
            w6 = (case stopJob env jobId' w4 of
                    (Inr _, w5) \<Rightarrow>
                      emit (ShowErrorMessage (transformByQCancelledMessage env)
                              (amazonQFeedbackText env)) w5
                  | (Inl _, w5) \<Rightarrow>
                      emit (ShowErrorMessage (errorStoppingJobMessage env)
                              (amazonQFeedbackText env)) w5)
        in (Inr (), emit (TelemetryEmit ''codeTransform_jobIsCancelledByUser'') w6)
      else (Inr (), w))"

subsection \<open>Suspension points\<close>

text \<open>
  The orchestrator is one sequence of \<^verbatim>\<open>await\<close>s. While it is suspended in one, the user
  may press the stop button, which runs \<^verbatim>\<open>stopTransformByQ\<close>. \<open>await env ev\<close> issues the
  awaited operation \<open>ev\<close> and passes one suspension point.
\<close>

definition interfere :: "env \<Rightarrow> world \<Rightarrow> world" where
  "interfere env w =
     (let w' = w\<lparr>tick := Suc (tick w)\<rparr> in
      case cancelAt env (tick w) of
        None \<Rightarrow> w'
      | Some j \<Rightarrow> snd (stopTransformByQ env j w'))"

definition await :: "env \<Rightarrow> event \<Rightarrow> world \<Rightarrow> world" where
  "await env ev w = interfere env (emit ev w)"

subsection \<open>The steps of a run\<close>

text \<open>
  \<^verbatim>\<open>setContextVariables\<close> and \<^verbatim>\<open>setTransformationToRunningState\<close>. The fifth context
  variable is set to a review status, not to a truth value, and is logged as a command.
\<close>

definition setContextVariables :: "env \<Rightarrow> world \<Rightarrow> world" where
  "setContextVariables env w =
     (let w1 = await env (SetContext ''gumby.wasQCodeTransformationUsed'' True) w;
          w2 = await env (SetContext ''gumby.isStopButtonAvailable'' True) w1;
          w3 = await env (SetContext ''gumby.isPlanAvailable'' False) w2;
          w4 = await env (SetContext ''gumby.isSummaryAvailable'' False) w3;
          w5 = await env (ExecuteCommand ''setContext gumby.reviewState'') w4
      in await env (SetContext ''gumby.transformationProposalReviewInProgress'' False) w5)"

definition setTransformationToRunningState :: "env \<Rightarrow> world \<Rightarrow> world" where
  "setTransformationToRunningState env w =
     (let w1 = setContextVariables env w;
          w2 = setStatus Running w1;
          w3 = w2\<lparr>progress := \<lparr>startJob_step = Pending, buildCode_step = Pending,
                                generatePlan_step = Pending, transformCode_step = Pending\<rparr>\<rparr>;
          w4 = w3\<lparr>startTime := clock env w3\<rparr>;
          w5 = emit (TelemetryEmit ''codeTransform_jobStartedCompleteFromPopupDialog'') w4;
          w6 = await env
                 (ExecuteCommand ''workbench.view.extension.aws-codewhisperer-transformation-hub'')
                 w5;
          w7 = await env (ExecuteCommand ''aws.amazonq.showPlanProgressInHub'') w6
      in await env (ExecuteCommand ''aws.amazonq.refresh'') w7)"

text \<open>\<^verbatim>\<open>preTransformationUploadCode\<close>: step 1, archive and upload.\<close>

definition preTransformationUploadCode :: "env \<Rightarrow> world \<Rightarrow> (error + string) \<times> world" where
  "preTransformationUploadCode env w =
     (let w1 = await env (ExecuteCommand ''aws.amazonq.refresh'') w;
          w2 = await env (ExecuteCommand ''aws.amazonq.transformationHub.focus'') w1
      in case throwIfCancelled w2 of
           Inl e \<Rightarrow> (Inl e, w2)
         | Inr _ \<Rightarrow>
             let w3 = await env ZipCode w2 in
             (case zipCode env w3 of
                Inl err \<Rightarrow> (Inl err, w3)
              | Inr payload \<Rightarrow>
                  let w4 = setPayloadFilePath payload w3;
                      w5 = await env (UploadPayload payload) w4
                  in (case uploadPayload env w5 payload of
                        Inl err \<Rightarrow> (Inl err, w5)
                      | Inr uploadId \<Rightarrow>
                          let w6 = await env (Sleep 2000) w5 in
                          (case throwIfCancelled w6 of
                             Inl e \<Rightarrow> (Inl e, w6)
                           | Inr _ \<Rightarrow> (Inr uploadId, w6)))))"

text \<open>\<^verbatim>\<open>startTransformationJob\<close>: step 2.\<close>

definition startTransformationJob :: "env \<Rightarrow> string \<Rightarrow> world \<Rightarrow> (error + string) \<times> world" where
  "startTransformationJob env uploadId w =
     (let w1 = await env (StartJob uploadId) w in
      case startJob env w1 uploadId of
        Inl _ \<Rightarrow>
          (Inl (Error ''Start job failed''),
           setJobFailureErrorMessage (failedToStartJobMessage env) w1)
      | Inr jobId' \<Rightarrow>
          let w2 = setJobId (encodeHTML env jobId') w1;
              w3 = await env (ExecuteCommand ''aws.amazonq.refresh'') w2;
              w4 = await env (Sleep 2000) w3
          in (case throwIfCancelled w4 of
                Inl e \<Rightarrow> (Inl e, w4)
              | Inr _ \<Rightarrow> (Inr jobId', w4)))"

text \<open>\<^verbatim>\<open>pollTransformationStatusUntilPlanReady\<close>: step 3.\<close>

definition pollTransformationStatusUntilPlanReady ::
  "env \<Rightarrow> string \<Rightarrow> world \<Rightarrow> (error + unit) \<times> world" where
  "pollTransformationStatusUntilPlanReady env jobId' w =
     (let w1 = await env (PollTransformationJob jobId' (validStatesForPlanGenerated env)) w in
      case pollTransformationJob env w1 jobId' (validStatesForPlanGenerated env) of
        Inl _ \<Rightarrow>
          (Inl (Error ''Poll job failed''),
           setJobFailureErrorMessage (failedToCompleteJobMessage env) w1)
      | Inr _ \<Rightarrow>
          let w2 = await env (GetTransformationPlan jobId') w1 in
          (case getTransformationPlan env w2 jobId' of
             Inl _ \<Rightarrow>
               (Inl (Error ''Get plan failed''),
                setJobFailureErrorMessage (failedToCompleteJobMessage env) w2)
           | Inr plan \<Rightarrow>
               let w3 = emit (WriteFileSync (tmpPlanFilePath env) plan) w2;
                   w4 = await env (ExecuteCommand ''markdown.showPreview'') w3;
                   w5 = setPlanFilePath (tmpPlanFilePath env) w4;
                   w6 = await env (SetContext ''gumby.isPlanAvailable'' True) w5;
                   w7 = w6\<lparr>progress := (progress w6)\<lparr>generatePlan_step := StepSucceeded\<rparr>\<rparr>
               in (case throwIfCancelled w7 of
                     Inl e \<Rightarrow> (Inl e, w7)
                   | Inr _ \<Rightarrow> (Inr (), w7))))"

text \<open>\<^verbatim>\<open>pollTransformationStatusUntilComplete\<close>: step 4.\<close>

definition pollTransformationStatusUntilComplete ::
  "env \<Rightarrow> string \<Rightarrow> world \<Rightarrow> (error + string) \<times> world" where
  "pollTransformationStatusUntilComplete env jobId' w =
     (let w1 = await env (PollTransformationJob jobId' (validStatesForCheckingDownloadUrl env)) w in
      case pollTransformationJob env w1 jobId' (validStatesForCheckingDownloadUrl env) of
        Inl _ \<Rightarrow>
          (Inl (Error ''Poll job failed''),
           setJobFailureErrorMessage (failedToCompleteJobMessage env) w1)
      | Inr st \<Rightarrow> (Inr st, w1))"

text \<open>\<^verbatim>\<open>finalizeTransformationJob\<close>.\<close>

definition finalizeTransformationJob ::
  "env \<Rightarrow> string \<Rightarrow> world \<Rightarrow> (error + unit) \<times> world" where
  "finalizeTransformationJob env st w =
     (if \<not> (st = ''COMPLETED'' \<or> st = ''PARTIALLY_COMPLETED'') then
        let w1 = w\<lparr>progress := (progress w)\<lparr>transformCode_step := StepFailed\<rparr>\<rparr>;
            w2 = setJobFailureErrorMessage (failedToCompleteJobMessage env) w1
        in (Inl (Error ''Job was not successful nor partially successful''), w2)
      else
        let w1 = setStatus Succeeded w;
            w2 = (if st = ''PARTIALLY_COMPLETED''
                  then setResultStatus ''JobPartiallySucceeded'' (setStatus PartiallySucceeded w1)
                  else setResultStatus ''JobCompletedSuccessfully'' w1);
            w3 = await env (ExecuteCommand ''aws.amazonq.transformationHub.reviewChanges.reveal'')
                   w2;
            w4 = await env (ExecuteCommand ''aws.amazonq.refresh'') w3
        in (Inr (), w4\<lparr>progress := (progress w4)\<lparr>transformCode_step := StepSucceeded\<rparr>\<rparr>))"

subsection \<open>Error handler, finalization, history\<close>

text \<open>\<^verbatim>\<open>transformationJobErrorHandler\<close>; what it logs of the error is left out.\<close>

definition transformationJobErrorHandler :: "env \<Rightarrow> error \<Rightarrow> world \<Rightarrow> world" where
  "transformationJobErrorHandler env err w =
     (if \<not> isCancelled w then
        let w1 = setStatus Failed w;
            w2 = setResultStatus ''JobFailed'' w1;
            displayedErrorMessage =
              (if jobFailureMetadata (job w2) \<noteq> ''''
               then jobFailureErrorMessage (job w2) @ '' '' @ jobFailureMetadata (job w2)
               else jobFailureErrorMessage (job w2))
        in emit (ShowErrorMessage displayedErrorMessage (amazonQFeedbackText env)) w2
      else w)"

text \<open>\<^verbatim>\<open>processHistory\<close>: the list passed in is dropped, the new entry is the only one.\<close>

definition processHistory ::
  "historyEntry list \<Rightarrow> string \<Rightarrow> string \<Rightarrow> string \<Rightarrow> string \<Rightarrow> string \<Rightarrow> historyEntry list" where
  "processHistory sessionJobHistory startTime' module' status' duration' ident =
     (let sessionJobHistory1 = [];
          copyState = \<lparr>timestamp = startTime', module = module', status = status',
                       duration = duration', id' = ident\<rparr>
      in sessionJobHistory1 @ [copyState])"

text \<open>
  \<^verbatim>\<open>postTransformationJob\<close>, in the order of its source: the four conditionals on the
  step progress, the notification of the chat, the telemetry of the run time, the history,
  the notification of the user, the removal of the archive.
\<close>

definition failUnfinishedSteps :: "sessionPlanProgress \<Rightarrow> sessionPlanProgress" where
  "failUnfinishedSteps p =
     (let p1 = (if startJob_step p \<noteq> StepSucceeded then p\<lparr>startJob_step := StepFailed\<rparr> else p);
          p2 = (if buildCode_step p1 \<noteq> StepSucceeded then p1\<lparr>buildCode_step := StepFailed\<rparr>
                else p1);
          p3 = (if generatePlan_step p2 \<noteq> StepSucceeded
                then p2\<lparr>generatePlan_step := StepFailed\<rparr> else p2)
      in if transformCode_step p3 \<noteq> StepSucceeded
         then p3\<lparr>transformCode_step := StepFailed\<rparr> else p3)"

definition recordHistory :: "env \<Rightarrow> nat \<Rightarrow> world \<Rightarrow> world" where
  "recordHistory env durationInMs w =
     w\<lparr>history :=
         processHistory (history w)
           (convertDateToTimestamp env (startTime w))
           (projectName (job w))
           (statusText env (jobStatus (job w)))
           (convertToTimeString env durationInMs)
           (jobId (job w))\<rparr>"

definition showResultMessage :: "env \<Rightarrow> world \<Rightarrow> world" where
  "showResultMessage env w =
     (if isSucceeded w then
        emit (ShowInformationMessage (transformByQCompletedMessage env) []) w
      else if isPartiallySucceeded w then
        emit (ShowInformationMessage (transformByQPartiallyCompletedMessage env)
                [amazonQFeedbackText env]) w
      else w)"

definition deletePayload :: "world \<Rightarrow> world" where
  "deletePayload w =
     (if payloadFilePath (job w) \<noteq> [] then emit (RmSync (payloadFilePath (job w))) w else w)"

definition postTransformationJob :: "env \<Rightarrow> world \<Rightarrow> world" where
  "postTransformationJob env w =
     (let w1 = emit TransformationFinished (w\<lparr>progress := failUnfinishedSteps (progress w)\<rparr>);
          durationInMs = calculateTotalLatency env w1 (startTime w1);
          w2 = await env GetVersionData w1;
          w3 = emit (TelemetryEmit ''codeTransform_totalRunTime'') w2;
          w4 = recordHistory env durationInMs w3;
          w5 = showResultMessage env w4
      in deletePayload w5)"

text \<open>\<^verbatim>\<open>cleanupTransformationJob\<close>.\<close>

definition cleanupTransformationJob :: "env \<Rightarrow> world \<Rightarrow> world" where
  "cleanupTransformationJob env w =
     (let w1 = emit ClearInterval w;
          w2 = w1\<lparr>job := jobDefaults env (job w1)\<rparr>;
          w3 = await env (SetContext ''gumby.isStopButtonAvailable'' False) w2;
          w4 = await env (ExecuteCommand ''aws.amazonq.refresh'') w3
      in await env (ExecuteCommand ''aws.amazonq.showPlanProgressInHub'') w4)"

subsection \<open>The main sequence\<close>

text \<open>
  The \<^verbatim>\<open>try\<close> block of \<^verbatim>\<open>startTransformByQ\<close>: the four steps and the finalization of the
  status, each run only if the one before returned.
\<close>

definition transformSteps :: "env \<Rightarrow> world \<Rightarrow> (error + unit) \<times> world" where
  "transformSteps env w =
     (case preTransformationUploadCode env (emit SetInterval w) of
        (Inl e, w1) \<Rightarrow> (Inl e, w1)
      | (Inr uploadId, w1) \<Rightarrow>
          (case startTransformationJob env uploadId w1 of
             (Inl e, w2) \<Rightarrow> (Inl e, w2)
           | (Inr jobId', w2) \<Rightarrow>
               (case pollTransformationStatusUntilPlanReady env jobId' w2 of
                  (Inl e, w3) \<Rightarrow> (Inl e, w3)
                | (Inr _, w3) \<Rightarrow>
                    (case pollTransformationStatusUntilComplete env jobId' w3 of
                       (Inl e, w4) \<Rightarrow> (Inl e, w4)
                     | (Inr st, w4) \<Rightarrow> finalizeTransformationJob env st w4))))"

text \<open>\<^verbatim>\<open>startTransformByQ\<close>: \<^verbatim>\<open>try\<close>, \<^verbatim>\<open>catch\<close>, \<^verbatim>\<open>finally\<close>.\<close>

definition startTransformByQ :: "env \<Rightarrow> world \<Rightarrow> world" where
  "startTransformByQ env w =
     (let w0 = setTransformationToRunningState env w;
          w2 = (case transformSteps env w0 of
                  (Inl e, w1) \<Rightarrow> transformationJobErrorHandler env e w1
                | (Inr _, w1) \<Rightarrow> w1);
          w3 = postTransformationJob env w2
      in cleanupTransformationJob env w3)"

section \<open>Reading the log\<close>

text \<open>The effects that a function added to the log of the world it started from.\<close>

definition newTrace :: "world \<Rightarrow> world \<Rightarrow> (TransformByQStatus \<times> event) list" where
  "newTrace w w' = drop (length (trace w)) (trace w')"

text \<open>The job identifiers of the remote stop calls in a log, in order.\<close>

definition stopCalls :: "(TransformByQStatus \<times> event) list \<Rightarrow> string list" where
  "stopCalls tr = [j. (s, StopTransformation j) \<leftarrow> tr]"

text \<open>The texts of the error notifications in a log, in order.\<close>

definition errorMessages :: "(TransformByQStatus \<times> event) list \<Rightarrow> string list" where
  "errorMessages tr = [m. (s, ShowErrorMessage m f) \<leftarrow> tr]"

section \<open>Cancellation in the main sequence\<close>

text \<open>
  The operation with which each of the four steps begins: the archive build (step 1), the
  start call (step 2), and the poll (steps 3 and 4). The upload follows the archive build,
  and the fetch of the plan follows the poll, inside their step and without a check between.
\<close>

definition stepStart :: "event \<Rightarrow> bool" where
  "stepStart ev =
     (case ev of ZipCode \<Rightarrow> True | StartJob u \<Rightarrow> True | PollTransformationJob j vs \<Rightarrow> True
      | _ \<Rightarrow> False)"

text \<open>A log in which no step was begun while the job status was Cancelled.\<close>

definition guardedTrace :: "(TransformByQStatus \<times> event) list \<Rightarrow> bool" where
  "guardedTrace tr = list_all (\<lambda>(s, ev). stepStart ev \<longrightarrow> s \<noteq> Cancelled) tr"

text \<open>
  Cancellation has been requested by the time the orchestrator has passed \<open>n\<close> more
  suspension points: the status is Cancelled already, or the job is running and the user
  presses stop at one of the next \<open>n\<close> suspension points.
\<close>

definition cancelRequested :: "env \<Rightarrow> world \<Rightarrow> nat \<Rightarrow> bool" where
  "cancelRequested env w n =
     (isCancelled w \<or> (isRunning w \<and> (\<exists>k \<in> {..<n}. cancelAt env (tick w + k) \<noteq> None)))"

text \<open>
  No remote operation fails in this run. Each predicate looks at an operation in the very
  world in which the run calls it, and only if the run gets that far:
  \<^item> in \<^verbatim>\<open>preTransformationUploadCode\<close> entered in \<open>w\<close>, the archive build and the upload
    do not throw (nothing is asked when the first check stops the run before them);
  \<^item> in \<^verbatim>\<open>startTransformationJob\<close> entered in \<open>w\<close>, the start call does not throw;
  \<^item> in \<^verbatim>\<open>pollTransformationStatusUntilPlanReady\<close> entered in \<open>w\<close>, neither the poll nor
    the fetch of the plan throws;
  \<^item> in the main sequence run from \<open>w\<close>, none of these throws in the steps that the run
    reaches before the poll for completion.
\<close>

definition uploadSucceeds :: "env \<Rightarrow> world \<Rightarrow> bool" where
  "uploadSucceeds env w =
     (let w2 = await env (ExecuteCommand ''aws.amazonq.transformationHub.focus'')
                 (await env (ExecuteCommand ''aws.amazonq.refresh'') w);
          w3 = await env ZipCode w2
      in isCancelled w2 \<or>
         (case zipCode env w3 of
            Inl err \<Rightarrow> False
          | Inr payload \<Rightarrow>
              \<not> isl (uploadPayload env
                       (await env (UploadPayload payload) (setPayloadFilePath payload w3))
                       payload)))"

definition startSucceeds :: "env \<Rightarrow> string \<Rightarrow> world \<Rightarrow> bool" where
  "startSucceeds env uploadId w =
     (\<not> isl (startJob env (await env (StartJob uploadId) w) uploadId))"

definition planSucceeds :: "env \<Rightarrow> string \<Rightarrow> world \<Rightarrow> bool" where
  "planSucceeds env jobId' w =
     (let w1 = await env (PollTransformationJob jobId' (validStatesForPlanGenerated env)) w
      in \<not> isl (pollTransformationJob env w1 jobId' (validStatesForPlanGenerated env))
         \<and> \<not> isl (getTransformationPlan env (await env (GetTransformationPlan jobId') w1)
                  jobId'))"

definition noRemoteFailure :: "env \<Rightarrow> world \<Rightarrow> bool" where
  "noRemoteFailure env w =
     (let w0 = emit SetInterval w in
      uploadSucceeds env w0 \<and>
      (case preTransformationUploadCode env w0 of
         (Inl e, w1) \<Rightarrow> True
       | (Inr uploadId, w1) \<Rightarrow>
           startSucceeds env uploadId w1 \<and>
           (case startTransformationJob env uploadId w1 of
              (Inl e, w2) \<Rightarrow> True
            | (Inr jobId', w2) \<Rightarrow> planSucceeds env jobId' w2)))"

section \<open>An example environment\<close>

text \<open>
  A concrete environment and a concrete world, on which the theorems below are instantiated.
  Every remote operation succeeds, the job ends as \<^verbatim>\<open>COMPLETED\<close> and the user does not
  cancel; variations are record updates of it. The HTML encoding of the example replaces
  \<^verbatim>\<open><\<close> only.
\<close>

definition exampleEncodeHTML :: "string \<Rightarrow> string" where
  "exampleEncodeHTML s = concat (map (\<lambda>c. if c = CHR ''<'' then ''&lt;'' else [c]) s)"

definition exampleStatusText :: "TransformByQStatus \<Rightarrow> string" where
  "exampleStatusText s =
     (case s of NotStarted \<Rightarrow> ''Not Started'' | Running \<Rightarrow> ''Running''
      | Succeeded \<Rightarrow> ''Succeeded'' | PartiallySucceeded \<Rightarrow> ''Partially Succeeded''
      | Failed \<Rightarrow> ''Failed'' | Cancelled \<Rightarrow> ''Cancelled'')"

definition exampleEnv :: env where
  "exampleEnv =
     \<lparr>failedToStartJobMessage = ''start failed'',
      failedToCompleteJobMessage = ''job failed'',
      transformByQCancelledMessage = ''cancelled'',
      errorStoppingJobMessage = ''error stopping'',
      transformByQCompletedMessage = ''completed'',
      transformByQPartiallyCompletedMessage = ''partially completed'',
      amazonQFeedbackText = ''feedback'',
      validStatesForPlanGenerated = [''PLANNED''],
      validStatesForCheckingDownloadUrl = [''COMPLETED'', ''PARTIALLY_COMPLETED''],
      tmpPlanFilePath = ''transformation-plan.md'',
      encodeHTML = exampleEncodeHTML,
      convertToTimeString = (\<lambda>n. ''10 sec''),
      convertDateToTimestamp = (\<lambda>n. ''01/01/23, 12:00 AM''),
      statusText = exampleStatusText,
      clock = (\<lambda>w. 0),
      calculateTotalLatency = (\<lambda>w n. 10000),
      jobDefaults = (\<lambda>j. j\<lparr>jobStatus := NotStarted\<rparr>),
      zipCode = (\<lambda>w. Inr ''payload.zip''),
      uploadPayload = (\<lambda>w p. Inr ''upload-1''),
      startJob = (\<lambda>w u. Inr ''job<1>''),
      pollTransformationJob = (\<lambda>w j vs. Inr ''COMPLETED''),
      getTransformationPlan = (\<lambda>w j. Inr ''plan''),
      stopTransformation = (\<lambda>w j. None),
      cancelAt = (\<lambda>k. None)\<rparr>"

definition exampleWorld :: world where
  "exampleWorld =
     \<lparr>job = \<lparr>jobStatus = NotStarted, jobId = [], projectName = ''my-module'',
             projectPath = ''/my-module'', mavenName = ''mvn'', payloadFilePath = [],
             planFilePath = [], jobFailureErrorMessage = [], jobFailureMetadata = []\<rparr>,
      progress = \<lparr>startJob_step = Pending, buildCode_step = StepSucceeded,
                  generatePlan_step = StepFailed, transformCode_step = Pending\<rparr>,
      history = [], resultStatus = [], startTime = 0, tick = 0, trace = []\<rparr>"

text \<open>The example world with a running job, with a cancelled job, and with a failure on record.\<close>

definition runningWorld :: world where
  "runningWorld = setStatus Running exampleWorld"

definition cancelledWorld :: world where
  "cancelledWorld = setStatus Cancelled exampleWorld"

definition failedWorld :: world where
  "failedWorld =
     runningWorld\<lparr>job := (job runningWorld)\<lparr>jobFailureErrorMessage := ''job failed'',
                                            jobFailureMetadata := ''[jobId: 1]''\<rparr>\<rparr>"

text \<open>The example environment with a remote stop call that fails.\<close>

definition failingStopEnv :: env where
  "failingStopEnv =
     exampleEnv\<lparr>stopTransformation := (\<lambda>w j. Some (Error ''Stop job failed''))\<rparr>"

text \<open>
  The example environment with a user who presses stop at suspension point 6, which in a run
  from \<open>runningWorld\<close> is the refresh of the view after the start call.
\<close>

definition cancellingEnv :: env where
  "cancellingEnv =
     exampleEnv\<lparr>cancelAt := (\<lambda>k. if k = 6 then Some ''job&lt;1>'' else None)\<rparr>"

text \<open>
  The example environment with a poller that observes a cancellation, as section 4.3 of the
  specification asks of it (the poll terminates with failure if a cancellation was
  observed), and a user who presses stop at suspension point 8, which in a run from
  \<open>runningWorld\<close> is the poll for the plan.
\<close>

definition observingPollEnv :: env where
  "observingPollEnv =
     exampleEnv\<lparr>pollTransformationJob :=
                  (\<lambda>w j vs. if isCancelled w then Inl TransformByQStoppedError
                             else Inr ''COMPLETED''),
                cancelAt := (\<lambda>k. if k = 8 then Some ''job&lt;1>'' else None)\<rparr>"

text \<open>
  Three more users: one presses stop at suspension point 2, during the archive build, when
  there is no job identifier yet; one at suspension point 8, during the poll for the plan,
  with the poller of the example, which does not look at the cancellation; and one at
  suspension point 6, with the poller that observes a cancellation.
\<close>

definition zipCancelEnv :: env where
  "zipCancelEnv = exampleEnv\<lparr>cancelAt := (\<lambda>k. if k = 2 then Some [] else None)\<rparr>"

definition pollCancelEnv :: env where
  "pollCancelEnv = exampleEnv\<lparr>cancelAt := (\<lambda>k. if k = 8 then Some ''job&lt;1>'' else None)\<rparr>"

definition observingPollStartEnv :: env where
  "observingPollStartEnv =
     observingPollEnv\<lparr>cancelAt := (\<lambda>k. if k = 6 then Some ''job&lt;1>'' else None)\<rparr>"

section \<open>Frame lemmas\<close>

text \<open>What logging, the remote stop, the user's cancellation and a suspension leave alone.\<close>

lemma emit_fields:
  "job (emit ev w) = job w" "progress (emit ev w) = progress w" "history (emit ev w) = history w"
  "resultStatus (emit ev w) = resultStatus w" "startTime (emit ev w) = startTime w"
  "tick (emit ev w) = tick w" "trace (emit ev w) = trace w @ [(jobStatus (job w), ev)]"
  by (simp_all add: emit_def)

lemma stopJob_fields:
  "job (snd (stopJob env j w)) = job w" "progress (snd (stopJob env j w)) = progress w"
  "history (snd (stopJob env j w)) = history w"
  "resultStatus (snd (stopJob env j w)) = resultStatus w"
  "startTime (snd (stopJob env j w)) = startTime w"
  "tick (snd (stopJob env j w)) = tick w"
  by (simp_all add: stopJob_def Let_def emit_fields split: option.split)

lemma stopJob_trace:
  "trace (snd (stopJob env j w)) =
     trace w @ (if j = [] then [] else [(jobStatus (job w), StopTransformation j)])"
  by (simp add: stopJob_def Let_def emit_fields split: option.split)

lemma stopJob_notify:
  "(case stopJob env j w of (Inr x, w5) \<Rightarrow> emit a w5 | (Inl x, w5) \<Rightarrow> emit b w5) =
   emit (if isl (fst (stopJob env j w)) then b else a) (snd (stopJob env j w))"
  by (cases "stopJob env j w"; cases "fst (stopJob env j w)") auto

lemma stopTransformByQ_fields:
  "progress (snd (stopTransformByQ env j w)) = progress w"
  "history (snd (stopTransformByQ env j w)) = history w"
  "startTime (snd (stopTransformByQ env j w)) = startTime w"
  "tick (snd (stopTransformByQ env j w)) = tick w"
  "job (snd (stopTransformByQ env j w)) =
     (if isRunning w then (job w)\<lparr>jobStatus := Cancelled\<rparr> else job w)"
  by (simp_all add: stopTransformByQ_def Let_def stopJob_notify emit_fields stopJob_fields
        setStatus_def setResultStatus_def isRunning_def)

lemma await_fields:
  "progress (await env ev w) = progress w"
  "history (await env ev w) = history w"
  "startTime (await env ev w) = startTime w"
  "tick (await env ev w) = Suc (tick w)"
  by (simp_all add: await_def interfere_def Let_def emit_fields stopTransformByQ_fields
        split: option.split)

lemma await_job:
  "job (await env ev w) =
     (if isRunning w \<and> cancelAt env (tick w) \<noteq> None then (job w)\<lparr>jobStatus := Cancelled\<rparr>
      else job w)"
  by (auto simp add: await_def interfere_def Let_def emit_fields stopTransformByQ_fields
        isRunning_def split: option.split)

lemma await_job_fields:
  "jobId (job (await env ev w)) = jobId (job w)"
  "projectName (job (await env ev w)) = projectName (job w)"
  "payloadFilePath (job (await env ev w)) = payloadFilePath (job w)"
  "jobFailureErrorMessage (job (await env ev w)) = jobFailureErrorMessage (job w)"
  "jobFailureMetadata (job (await env ev w)) = jobFailureMetadata (job w)"
  by (simp_all add: await_job)

lemma await_not_running: "\<not> isRunning w \<Longrightarrow> job (await env ev w) = job w"
  by (simp add: await_job)

lemma failUnfinishedSteps_fields:
  "startJob_step (failUnfinishedSteps p) =
     (if startJob_step p = StepSucceeded then StepSucceeded else StepFailed)"
  "buildCode_step (failUnfinishedSteps p) =
     (if buildCode_step p = StepSucceeded then StepSucceeded else StepFailed)"
  "generatePlan_step (failUnfinishedSteps p) =
     (if generatePlan_step p = StepSucceeded then StepSucceeded else StepFailed)"
  "transformCode_step (failUnfinishedSteps p) =
     (if transformCode_step p = StepSucceeded then StepSucceeded else StepFailed)"
  by (cases p; simp add: failUnfinishedSteps_def Let_def)+

lemma showResultMessage_fields:
  "job (showResultMessage env w) = job w" "progress (showResultMessage env w) = progress w"
  "history (showResultMessage env w) = history w"
  by (simp_all add: showResultMessage_def emit_fields)

lemma deletePayload_fields:
  "job (deletePayload w) = job w" "progress (deletePayload w) = progress w"
  "history (deletePayload w) = history w"
  by (simp_all add: deletePayload_def emit_fields)

lemma postTransformationJob_progress:
  "progress (postTransformationJob env w) = failUnfinishedSteps (progress w)"
  by (simp add: postTransformationJob_def Let_def deletePayload_fields showResultMessage_fields
        recordHistory_def emit_fields await_fields)

lemma postTransformationJob_history:
  "history (postTransformationJob env w) =
     processHistory (history w)
       (convertDateToTimestamp env (startTime w))
       (projectName (job w))
       (statusText env (jobStatus (job (postTransformationJob env w))))
       (convertToTimeString env
          (calculateTotalLatency env
             (emit TransformationFinished (w\<lparr>progress := failUnfinishedSteps (progress w)\<rparr>))
             (startTime w)))
       (jobId (job w))"
  by (simp add: postTransformationJob_def Let_def deletePayload_fields showResultMessage_fields
        recordHistory_def emit_fields await_fields await_job_fields processHistory_def)

lemma cleanupTransformationJob_fields:
  "history (cleanupTransformationJob env w) = history w"
  "progress (cleanupTransformationJob env w) = progress w"
  by (simp_all add: cleanupTransformationJob_def Let_def await_fields emit_fields)

section \<open>Lemmas on the main sequence\<close>

text \<open>
  The setters, the log of a cancellation, the guarded log through each step, and the
  propagation of a cancellation request through the suspension points of each step.
\<close>

lemma setter_fields:
  "job (setStatus s w) = (job w)\<lparr>jobStatus := s\<rparr>"
  "progress (setStatus s w) = progress w" "history (setStatus s w) = history w"
  "trace (setStatus s w) = trace w" "tick (setStatus s w) = tick w"
  "job (setResultStatus r w) = job w" "progress (setResultStatus r w) = progress w"
  "history (setResultStatus r w) = history w" "trace (setResultStatus r w) = trace w"
  "tick (setResultStatus r w) = tick w"
  "job (setJobFailureErrorMessage m w) = (job w)\<lparr>jobFailureErrorMessage := m\<rparr>"
  "progress (setJobFailureErrorMessage m w) = progress w"
  "history (setJobFailureErrorMessage m w) = history w"
  "trace (setJobFailureErrorMessage m w) = trace w"
  "tick (setJobFailureErrorMessage m w) = tick w"
  "job (setJobId j w) = (job w)\<lparr>jobId := j\<rparr>"
  "progress (setJobId j w) = progress w" "history (setJobId j w) = history w"
  "trace (setJobId j w) = trace w" "tick (setJobId j w) = tick w"
  "job (setPayloadFilePath f w) = (job w)\<lparr>payloadFilePath := f\<rparr>"
  "progress (setPayloadFilePath f w) = progress w" "history (setPayloadFilePath f w) = history w"
  "trace (setPayloadFilePath f w) = trace w" "tick (setPayloadFilePath f w) = tick w"
  "job (setPlanFilePath f w) = (job w)\<lparr>planFilePath := f\<rparr>"
  "progress (setPlanFilePath f w) = progress w" "history (setPlanFilePath f w) = history w"
  "trace (setPlanFilePath f w) = trace w" "tick (setPlanFilePath f w) = tick w"
  by (simp_all add: setStatus_def setResultStatus_def setJobFailureErrorMessage_def setJobId_def
        setPayloadFilePath_def setPlanFilePath_def)

lemma guardedTrace_simps:
  "guardedTrace []"
  "guardedTrace (xs @ ys) = (guardedTrace xs \<and> guardedTrace ys)"
  "guardedTrace ((s, ev) # xs) = ((stepStart ev \<longrightarrow> s \<noteq> Cancelled) \<and> guardedTrace xs)"
  by (simp_all add: guardedTrace_def)

lemma stopTransformByQ_trace:
  "\<exists>xs. trace (snd (stopTransformByQ env j w)) = trace w @ xs
        \<and> list_all (\<lambda>(s, ev). s = Cancelled \<and> \<not> stepStart ev) xs"
  by (simp add: stopTransformByQ_def Let_def stopJob_notify emit_fields stopJob_fields
        stopJob_trace setter_fields stepStart_def)

lemma stopTransformByQ_guarded:
  "guardedTrace (trace (snd (stopTransformByQ env j w))) = guardedTrace (trace w)"
proof -
  obtain xs where xs: "trace (snd (stopTransformByQ env j w)) = trace w @ xs"
    "list_all (\<lambda>(s, ev). s = Cancelled \<and> \<not> stepStart ev) xs"
    using stopTransformByQ_trace by blast
  from xs(2) have "guardedTrace xs"
    by (auto simp add: guardedTrace_def list_all_iff)
  with xs(1) show ?thesis by (simp add: guardedTrace_simps)
qed

lemma await_guarded:
  "guardedTrace (trace (await env ev w)) =
     (guardedTrace (trace w) \<and> (stepStart ev \<longrightarrow> \<not> isCancelled w))"
  by (auto simp add: await_def interfere_def Let_def stopTransformByQ_guarded emit_fields
        guardedTrace_simps isCancelled_def split: option.split)

lemma await_isCancelled:
  "isCancelled (await env ev w) =
     (isCancelled w \<or> (isRunning w \<and> cancelAt env (tick w) \<noteq> None))"
  by (auto simp add: isCancelled_def await_job isRunning_def)

lemma setter_isCancelled:
  "isCancelled (setPayloadFilePath f w) = isCancelled w"
  "isCancelled (setPlanFilePath f w) = isCancelled w"
  "isCancelled (setJobId j w) = isCancelled w"
  "isCancelled (setJobFailureErrorMessage m w) = isCancelled w"
  "isCancelled (emit ev w) = isCancelled w"
  "isCancelled (w\<lparr>progress := p\<rparr>) = isCancelled w"
  "isRunning (setPayloadFilePath f w) = isRunning w"
  "isRunning (setPlanFilePath f w) = isRunning w"
  "isRunning (setJobId j w) = isRunning w"
  "isRunning (setJobFailureErrorMessage m w) = isRunning w"
  "isRunning (emit ev w) = isRunning w"
  "isRunning (w\<lparr>progress := p\<rparr>) = isRunning w"
  by (simp_all add: isCancelled_def isRunning_def setter_fields emit_fields)

lemma pre_guarded:
  "guardedTrace (trace w) \<Longrightarrow>
     guardedTrace (trace (snd (preTransformationUploadCode env w)))
     \<and> (\<forall>u. fst (preTransformationUploadCode env w) = Inr u \<longrightarrow>
           \<not> isCancelled (snd (preTransformationUploadCode env w)))"
  by (simp add: preTransformationUploadCode_def Let_def throwIfCancelled_def await_guarded
        stepStart_def setter_fields split: sum.split)

lemma start_guarded:
  "guardedTrace (trace w) \<Longrightarrow> \<not> isCancelled w \<Longrightarrow>
     guardedTrace (trace (snd (startTransformationJob env u w)))
     \<and> (\<forall>j. fst (startTransformationJob env u w) = Inr j \<longrightarrow>
           \<not> isCancelled (snd (startTransformationJob env u w)))"
  by (simp add: startTransformationJob_def Let_def throwIfCancelled_def await_guarded
        stepStart_def setter_fields split: sum.split)

lemma pollPlan_guarded:
  "guardedTrace (trace w) \<Longrightarrow> \<not> isCancelled w \<Longrightarrow>
     guardedTrace (trace (snd (pollTransformationStatusUntilPlanReady env j w)))
     \<and> (fst (pollTransformationStatusUntilPlanReady env j w) = Inr () \<longrightarrow>
           \<not> isCancelled (snd (pollTransformationStatusUntilPlanReady env j w)))"
  by (simp add: pollTransformationStatusUntilPlanReady_def Let_def throwIfCancelled_def
        await_guarded stepStart_def setter_fields emit_fields guardedTrace_simps
        split: sum.split)

lemma pollComplete_guarded:
  "guardedTrace (trace w) \<Longrightarrow> \<not> isCancelled w \<Longrightarrow>
     guardedTrace (trace (snd (pollTransformationStatusUntilComplete env j w)))"
  by (simp add: pollTransformationStatusUntilComplete_def Let_def
        await_guarded stepStart_def setter_fields split: sum.split)

lemma finalize_guarded:
  "guardedTrace (trace w) \<Longrightarrow>
     guardedTrace (trace (snd (finalizeTransformationJob env st w)))"
  by (simp add: finalizeTransformationJob_def Let_def
        await_guarded stepStart_def setter_fields)

lemma transformSteps_guarded:
  assumes g: "guardedTrace (trace w)"
  shows "guardedTrace (trace (snd (transformSteps env w)))"
proof -
  let ?w0 = "emit SetInterval w"
  have g0: "guardedTrace (trace ?w0)"
    using g by (simp add: emit_fields guardedTrace_simps stepStart_def)
  obtain r1 w1 where p1: "preTransformationUploadCode env ?w0 = (r1, w1)"
    by (cases "preTransformationUploadCode env ?w0")
  from pre_guarded [OF g0, of env] p1
  have g1: "guardedTrace (trace w1)" and c1: "\<And>u. r1 = Inr u \<Longrightarrow> \<not> isCancelled w1"
    by simp_all
  show ?thesis
  proof (cases r1)
    case (Inl e)
    with p1 g1 show ?thesis by (simp add: transformSteps_def)
  next
    case (Inr u)
    obtain r2 w2 where p2: "startTransformationJob env u w1 = (r2, w2)"
      by (cases "startTransformationJob env u w1")
    from start_guarded [OF g1 c1 [OF Inr], of env u] p2
    have g2: "guardedTrace (trace w2)" and c2: "\<And>j. r2 = Inr j \<Longrightarrow> \<not> isCancelled w2"
      by simp_all
    show ?thesis
    proof (cases r2)
      case (Inl e)
      with p1 p2 g2 \<open>r1 = Inr u\<close> show ?thesis by (simp add: transformSteps_def)
    next
      case r2: (Inr j)
      obtain r3 w3 where p3: "pollTransformationStatusUntilPlanReady env j w2 = (r3, w3)"
        by (cases "pollTransformationStatusUntilPlanReady env j w2")
      from pollPlan_guarded [OF g2 c2 [OF r2], of env j] p3
      have g3: "guardedTrace (trace w3)" and c3: "r3 = Inr () \<Longrightarrow> \<not> isCancelled w3"
        by simp_all
      show ?thesis
      proof (cases r3)
        case (Inl e)
        with p1 p2 p3 g3 \<open>r1 = Inr u\<close> r2 show ?thesis by (simp add: transformSteps_def)
      next
        case r3: (Inr x)
        obtain r4 w4 where p4: "pollTransformationStatusUntilComplete env j w3 = (r4, w4)"
          by (cases "pollTransformationStatusUntilComplete env j w3")
        from r3 have "r3 = Inr ()" by simp
        from pollComplete_guarded [OF g3 c3 [OF this], of env j] p4
        have g4: "guardedTrace (trace w4)" by simp
        show ?thesis
        proof (cases r4)
          case (Inl e)
          with p1 p2 p3 p4 g4 \<open>r1 = Inr u\<close> r2 r3 show ?thesis
            by (simp add: transformSteps_def)
        next
          case r4: (Inr st)
          from finalize_guarded [OF g4, of env st] p1 p2 p3 p4 \<open>r1 = Inr u\<close> r2 r3 r4
          show ?thesis by (simp add: transformSteps_def)
        qed
      qed
    qed
  qed
qed

lemma await_isRunning:
  "isRunning (await env ev w) = (isRunning w \<and> cancelAt env (tick w) = None)"
  by (auto simp add: isRunning_def await_job)

lemma cancelRequested_0: "cancelRequested env w 0 = isCancelled w"
  by (simp add: cancelRequested_def)

lemma cancelRequested_await:
  "cancelRequested env (await env ev w) n = cancelRequested env w (Suc n)"
proof -
  have "(\<exists>k\<in>{..<Suc n}. cancelAt env (tick w + k) \<noteq> None) =
        (cancelAt env (tick w) \<noteq> None \<or> (\<exists>k\<in>{..<n}. cancelAt env (Suc (tick w + k)) \<noteq> None))"
    (is "?L = ?R")
  proof
    assume ?L
    then obtain k where k: "k < Suc n" "cancelAt env (tick w + k) \<noteq> None" by auto
    show ?R
    proof (cases k)
      case 0 with k show ?thesis by simp
    next
      case (Suc k') with k show ?thesis by auto
    qed
  next
    assume ?R
    then show ?L
    proof
      assume "cancelAt env (tick w) \<noteq> None"
      then have "cancelAt env (tick w + 0) \<noteq> None" by simp
      then show ?L by blast
    next
      assume "\<exists>k\<in>{..<n}. cancelAt env (Suc (tick w + k)) \<noteq> None"
      then obtain k where "k < n" "cancelAt env (tick w + Suc k) \<noteq> None" by auto
      then show ?L by (intro bexI [of _ "Suc k"]) auto
    qed
  qed
  then show ?thesis
    by (auto simp add: cancelRequested_def await_isCancelled await_isRunning await_fields)
qed

lemma cancelRequested_setters:
  "cancelRequested env (setPayloadFilePath f w) n = cancelRequested env w n"
  "cancelRequested env (setPlanFilePath f w) n = cancelRequested env w n"
  "cancelRequested env (setJobId j w) n = cancelRequested env w n"
  "cancelRequested env (emit ev w) n = cancelRequested env w n"
  "cancelRequested env (w\<lparr>progress := p\<rparr>) n = cancelRequested env w n"
  by (simp_all add: cancelRequested_def setter_isCancelled setter_fields emit_fields)

lemma cancelRequested_mono: "cancelRequested env w m \<Longrightarrow> m \<le> n \<Longrightarrow> cancelRequested env w n"
  by (auto simp add: cancelRequested_def)

lemma case_sum_not_isl:
  "\<not> isl x \<Longrightarrow> (case x of Inl a \<Rightarrow> f a | Inr b \<Rightarrow> g b) = g (projr x)"
  by (cases x) simp_all

lemma isCancelled_await_requested:
  "isCancelled (await env ev w) = cancelRequested env w (Suc 0)"
  using cancelRequested_await [of env ev w 0] by (simp add: cancelRequested_0)

lemma pre_early:
  "cancelRequested env w 2 \<Longrightarrow>
     preTransformationUploadCode env w =
       (Inl TransformByQStoppedError,
        await env (ExecuteCommand ''aws.amazonq.transformationHub.focus'')
          (await env (ExecuteCommand ''aws.amazonq.refresh'') w))"
  by (simp add: preTransformationUploadCode_def Let_def throwIfCancelled_def
        isCancelled_await_requested cancelRequested_await eval_nat_numeral)

lemma pre_in_run:
  "uploadSucceeds env w \<Longrightarrow> cancelRequested env w 5 \<Longrightarrow>
     fst (preTransformationUploadCode env w) = Inl TransformByQStoppedError"
  using cancelRequested_mono [of env w 2 5]
  by (auto simp add: uploadSucceeds_def preTransformationUploadCode_def Let_def
        throwIfCancelled_def case_sum_not_isl isCancelled_await_requested
        cancelRequested_await cancelRequested_setters eval_nat_numeral split: sum.splits)

lemma pre_returned:
  "\<not> isl (fst (preTransformationUploadCode env w)) \<Longrightarrow>
     \<not> cancelRequested env w 5
     \<and> cancelRequested env (snd (preTransformationUploadCode env w)) n =
         cancelRequested env w (5 + n)"
  by (auto simp add: preTransformationUploadCode_def Let_def
        throwIfCancelled_def isCancelled_await_requested
        cancelRequested_await cancelRequested_setters eval_nat_numeral
        split: sum.splits if_splits)

lemma start_in_run:
  "startSucceeds env u w \<Longrightarrow> cancelRequested env w 3 \<Longrightarrow>
     fst (startTransformationJob env u w) = Inl TransformByQStoppedError"
  by (auto simp add: startSucceeds_def startTransformationJob_def Let_def
        throwIfCancelled_def case_sum_not_isl isCancelled_await_requested
        cancelRequested_await cancelRequested_setters eval_nat_numeral split: sum.splits)

lemma start_returned:
  "\<not> isl (fst (startTransformationJob env u w)) \<Longrightarrow>
     \<not> cancelRequested env w 3
     \<and> cancelRequested env (snd (startTransformationJob env u w)) n =
         cancelRequested env w (3 + n)"
  by (auto simp add: startTransformationJob_def Let_def
        throwIfCancelled_def isCancelled_await_requested
        cancelRequested_await cancelRequested_setters eval_nat_numeral
        split: sum.splits if_splits)

lemma pollPlan_in_run:
  "planSucceeds env j w \<Longrightarrow> cancelRequested env w 4 \<Longrightarrow>
     fst (pollTransformationStatusUntilPlanReady env j w) = Inl TransformByQStoppedError"
  by (auto simp add: planSucceeds_def pollTransformationStatusUntilPlanReady_def Let_def
        throwIfCancelled_def case_sum_not_isl isCancelled_await_requested
        cancelRequested_await cancelRequested_setters setter_isCancelled eval_nat_numeral
        split: sum.splits)

lemma pollPlan_returned:
  "\<not> isl (fst (pollTransformationStatusUntilPlanReady env j w)) \<Longrightarrow>
     \<not> cancelRequested env w 4"
  by (auto simp add: pollTransformationStatusUntilPlanReady_def Let_def
        throwIfCancelled_def isCancelled_await_requested
        cancelRequested_await cancelRequested_setters setter_isCancelled eval_nat_numeral
        split: sum.splits if_splits)

lemma transformSteps_in_run:
  assumes ok: "noRemoteFailure env w" and req: "cancelRequested env w 12"
  shows "fst (transformSteps env w) = Inl TransformByQStoppedError"
proof -
  let ?w0 = "emit SetInterval w"
  have req0: "cancelRequested env ?w0 12"
    using req by (simp add: cancelRequested_setters)
  from ok have up: "uploadSucceeds env ?w0"
    by (simp add: noRemoteFailure_def Let_def)
  obtain r1 w1 where p1: "preTransformationUploadCode env ?w0 = (r1, w1)"
    by (cases "preTransformationUploadCode env ?w0")
  show ?thesis
  proof (cases "cancelRequested env ?w0 5")
    case True
    from pre_in_run [OF up True] p1 show ?thesis
      by (simp add: transformSteps_def)
  next
    case False
    show ?thesis
    proof (cases r1)
      case (Inl e)
      have "e = TransformByQStoppedError"
        using up p1 Inl
        by (auto simp add: uploadSucceeds_def preTransformationUploadCode_def Let_def
              throwIfCancelled_def split: sum.splits if_splits)
      then show ?thesis using p1 Inl by (simp add: transformSteps_def)
    next
      case (Inr u)
      from pre_returned [of env ?w0 7] p1 Inr req0
      have req1: "cancelRequested env w1 7" by simp
      from ok p1 Inr have st: "startSucceeds env u w1"
        by (simp add: noRemoteFailure_def Let_def)
      obtain r2 w2 where p2: "startTransformationJob env u w1 = (r2, w2)"
        by (cases "startTransformationJob env u w1")
      show ?thesis
      proof (cases r2)
        case (Inl e)
        have "e = TransformByQStoppedError"
          using st p2 Inl
          by (auto simp add: startSucceeds_def startTransformationJob_def Let_def
                throwIfCancelled_def split: sum.splits if_splits)
        with p1 p2 Inr Inl show ?thesis by (simp add: transformSteps_def)
      next
        case r2: (Inr j)
        from start_returned [of env u w1 4] p2 r2 req1
        have req2: "cancelRequested env w2 4" by simp
        from ok p1 p2 Inr r2 have pl: "planSucceeds env j w2"
          by (simp add: noRemoteFailure_def Let_def)
        obtain r3 w3 where p3: "pollTransformationStatusUntilPlanReady env j w2 = (r3, w3)"
          by (cases "pollTransformationStatusUntilPlanReady env j w2")
        from pollPlan_in_run [OF pl req2] p1 p2 p3 Inr r2 show ?thesis
          by (simp add: transformSteps_def)
      qed
    qed
  qed
qed

lemma transformSteps_aborts:
  assumes req: "cancelRequested env w 12"
  shows "isl (fst (transformSteps env w))"
proof -
  let ?w0 = "emit SetInterval w"
  have req0: "cancelRequested env ?w0 12"
    using req by (simp add: cancelRequested_setters)
  obtain r1 w1 where p1: "preTransformationUploadCode env ?w0 = (r1, w1)"
    by (cases "preTransformationUploadCode env ?w0")
  show ?thesis
  proof (cases r1)
    case (Inl e)
    with p1 show ?thesis by (simp add: transformSteps_def)
  next
    case (Inr u)
    from pre_returned [of env ?w0 7] p1 Inr req0
    have req1: "cancelRequested env w1 7" by simp
    obtain r2 w2 where p2: "startTransformationJob env u w1 = (r2, w2)"
      by (cases "startTransformationJob env u w1")
    show ?thesis
    proof (cases r2)
      case (Inl e)
      with p1 p2 Inr show ?thesis by (simp add: transformSteps_def)
    next
      case r2: (Inr j)
      from start_returned [of env u w1 4] p2 r2 req1
      have req2: "cancelRequested env w2 4" by simp
      obtain r3 w3 where p3: "pollTransformationStatusUntilPlanReady env j w2 = (r3, w3)"
        by (cases "pollTransformationStatusUntilPlanReady env j w2")
      from pollPlan_returned [of env j w2] p3 req2 have "isl r3" by auto
      then obtain e where "r3 = Inl e" by (cases r3) auto
      with p1 p2 p3 Inr r2 show ?thesis by (simp add: transformSteps_def)
    qed
  qed
qed

lemma requested_at:
  "isRunning w \<Longrightarrow> cancelAt env (tick w + k) \<noteq> None \<Longrightarrow> k < n \<Longrightarrow> cancelRequested env w n"
  by (auto simp add: cancelRequested_def)

lemma await_trace_idle:
  "\<not> isRunning w \<Longrightarrow> trace (await env ev w) = trace w @ [(jobStatus (job w), ev)]"
  by (simp add: await_def interfere_def Let_def emit_fields stopTransformByQ_def
        isRunning_def split: option.split)

lemma pre_cancelled_at_entry:
  "isCancelled w \<Longrightarrow>
     fst (preTransformationUploadCode env w) = Inl TransformByQStoppedError
     \<and> newTrace w (snd (preTransformationUploadCode env w)) =
         [(Cancelled, ExecuteCommand ''aws.amazonq.refresh''),
          (Cancelled, ExecuteCommand ''aws.amazonq.transformationHub.focus'')]"
  by (simp add: preTransformationUploadCode_def Let_def throwIfCancelled_def
        await_isCancelled await_trace_idle await_isRunning newTrace_def isRunning_def
        isCancelled_def await_not_running)

lemma stopJob_isl:
  "isl (fst (stopJob env j w)) =
     (j \<noteq> [] \<and> stopTransformation env (emit (StopTransformation j) w) j \<noteq> None)"
  by (simp add: stopJob_def Let_def split: option.split)

lemma stopTransformByQ_newTrace:
  "isRunning w \<Longrightarrow>
     newTrace w (snd (stopTransformByQ env j w)) =
       [(Cancelled, ExecuteCommand ''aws.amazonq.refresh''),
        (Cancelled, SetContext ''gumby.isStopButtonAvailable'' False)]
       @ (if j = [] then [] else [(Cancelled, StopTransformation j)])
       @ [(Cancelled,
           ShowErrorMessage
             (if isl (fst (stopJob env j
                   (emit (SetContext ''gumby.isStopButtonAvailable'' False)
                      (emit (ExecuteCommand ''aws.amazonq.refresh'')
                         (setResultStatus ''JobCancelled'' (setStatus Cancelled w))))))
              then errorStoppingJobMessage env else transformByQCancelledMessage env)
             (amazonQFeedbackText env)),
          (Cancelled, TelemetryEmit ''codeTransform_jobIsCancelledByUser'')]"
  by (simp add: stopTransformByQ_def Let_def stopJob_notify emit_fields stopJob_fields
        stopJob_trace setter_fields newTrace_def)

lemma pre_returns_uncancelled:
  "\<not> isl (fst (preTransformationUploadCode env w)) \<longrightarrow>
     \<not> isCancelled (snd (preTransformationUploadCode env w))"
  by (simp add: preTransformationUploadCode_def Let_def throwIfCancelled_def split: sum.split)

lemma start_returns_uncancelled:
  "\<not> isl (fst (startTransformationJob env u w)) \<longrightarrow>
     \<not> isCancelled (snd (startTransformationJob env u w))"
  by (simp add: startTransformationJob_def Let_def throwIfCancelled_def split: sum.split)

lemma pollPlan_returns_uncancelled:
  "\<not> isl (fst (pollTransformationStatusUntilPlanReady env j w)) \<longrightarrow>
     \<not> isCancelled (snd (pollTransformationStatusUntilPlanReady env j w))"
  by (simp add: pollTransformationStatusUntilPlanReady_def Let_def throwIfCancelled_def
        split: sum.split)

lemma finalize_returns_uncancelled:
  "\<not> isl (fst (finalizeTransformationJob env st w)) \<longrightarrow>
     \<not> isCancelled (snd (finalizeTransformationJob env st w))"
  by (simp add: finalizeTransformationJob_def Let_def isCancelled_def await_job isRunning_def
        setter_fields)

lemma transformSteps_cancelled_aborts:
  "isCancelled (snd (transformSteps env w)) \<Longrightarrow> isl (fst (transformSteps env w))"
  using finalize_returns_uncancelled [of env]
  by (auto simp add: transformSteps_def split: prod.splits sum.splits)

section \<open>Evaluation on the example\<close>

text \<open>The definitions to unfold when a run is evaluated on the example environment.\<close>

lemmas model_defs =
  transformSteps_def preTransformationUploadCode_def startTransformationJob_def
  pollTransformationStatusUntilPlanReady_def pollTransformationStatusUntilComplete_def
  finalizeTransformationJob_def transformationJobErrorHandler_def Let_def await_def
  interfere_def emit_def throwIfCancelled_def stopTransformByQ_def stopJob_def isCancelled_def
  isRunning_def setStatus_def setResultStatus_def setJobId_def setPayloadFilePath_def
  setPlanFilePath_def setJobFailureErrorMessage_def

lemmas example_defs =
  exampleEnv_def exampleWorld_def runningWorld_def cancelledWorld_def failedWorld_def
  failingStopEnv_def cancellingEnv_def observingPollEnv_def exampleEncodeHTML_def

lemmas run_defs = noRemoteFailure_def uploadSucceeds_def startSucceeds_def planSucceeds_def
  zipCancelEnv_def pollCancelEnv_def observingPollStartEnv_def

section \<open>The claims\<close>

text \<open>
  C1. For every pair of a checksum and a KMS key ARN, the header map of \<^verbatim>\<open>getHeadersObj\<close>
  binds \<^verbatim>\<open>x-amz-checksum-sha256\<close> to the checksum and \<^verbatim>\<open>Content-Type\<close> to
  \<^verbatim>\<open>application/zip\<close>; it contains the two encryption headers, bound to \<^verbatim>\<open>aws:kms\<close> and to
  the ARN, if and only if the ARN is non-empty, and with an empty ARN the two keys are not in
  the map at all. The map has no other key.
\<close>

theorem getHeadersObj_encryption_iff:
  "getHeadersObj checksum kmsKeyArn ''x-amz-checksum-sha256'' = Some checksum
   \<and> getHeadersObj checksum kmsKeyArn ''Content-Type'' = Some ''application/zip''
   \<and> getHeadersObj checksum kmsKeyArn ''x-amz-server-side-encryption'' =
       (if kmsKeyArn = [] then None else Some ''aws:kms'')
   \<and> getHeadersObj checksum kmsKeyArn ''x-amz-server-side-encryption-aws-kms-key-id'' =
       (if kmsKeyArn = [] then None else Some kmsKeyArn)
   \<and> (''x-amz-server-side-encryption'' \<in> dom (getHeadersObj checksum kmsKeyArn))
       = (kmsKeyArn \<noteq> [])
   \<and> (''x-amz-server-side-encryption-aws-kms-key-id'' \<in> dom (getHeadersObj checksum kmsKeyArn))
       = (kmsKeyArn \<noteq> [])
   \<and> dom (getHeadersObj checksum kmsKeyArn) =
       (if kmsKeyArn = [] then {''x-amz-checksum-sha256'', ''Content-Type''}
        else {''x-amz-checksum-sha256'', ''Content-Type'', ''x-amz-server-side-encryption'',
              ''x-amz-server-side-encryption-aws-kms-key-id''})"
  by (auto simp add: getHeadersObj_def)

text \<open>The same on the example.\<close>

theorem getHeadersObj_encryption_iff_witness:
  "getHeadersObj ''dummy-sha-256'' ''dummy-kms-key-arn'' ''x-amz-checksum-sha256'' =
     Some ''dummy-sha-256''
   \<and> getHeadersObj ''dummy-sha-256'' ''dummy-kms-key-arn'' ''x-amz-server-side-encryption'' =
       Some ''aws:kms''
   \<and> getHeadersObj ''dummy-sha-256'' ''dummy-kms-key-arn''
         ''x-amz-server-side-encryption-aws-kms-key-id'' = Some ''dummy-kms-key-arn''
   \<and> getHeadersObj ''dummy-sha-256'' [] ''x-amz-server-side-encryption'' = None
   \<and> dom (getHeadersObj ''dummy-sha-256'' []) = {''x-amz-checksum-sha256'', ''Content-Type''}"
  using getHeadersObj_encryption_iff [of "''dummy-sha-256''" "''dummy-kms-key-arn''"]
    getHeadersObj_encryption_iff [of "''dummy-sha-256''" "[]"]
  by simp

text \<open>
  C2. \<^verbatim>\<open>stopJob\<close> with the empty job identifier returns without an error and leaves the
  world, and so the log of remote calls, as it was. With a non-empty identifier it adds
  exactly one effect to the log, the remote stop call with that identifier.
\<close>

theorem stopJob_empty_noop:
  "stopJob env [] w = (Inr (), w)
   \<and> trace (snd (stopJob env jid w)) =
       trace w @ (if jid = [] then [] else [(jobStatus (job w), StopTransformation jid)])
   \<and> stopCalls (newTrace w (snd (stopJob env jid w))) = (if jid = [] then [] else [jid])"
  by (simp add: stopJob_def Let_def emit_fields stopCalls_def newTrace_def split: option.split)

text \<open>The same on the example.\<close>

theorem stopJob_empty_noop_witness:
  "stopJob exampleEnv [] exampleWorld = (Inr (), exampleWorld)
   \<and> stopCalls (newTrace exampleWorld (snd (stopJob exampleEnv ''dummyId'' exampleWorld))) =
       [''dummyId'']"
proof -
  from stopJob_empty_noop [of exampleEnv exampleWorld "''dummyId''"]
  have a: "stopJob exampleEnv [] exampleWorld = (Inr (), exampleWorld)"
    and b: "stopCalls (newTrace exampleWorld (snd (stopJob exampleEnv ''dummyId'' exampleWorld)))
              = (if ''dummyId'' = [] then [] else [''dummyId''])"
    by blast+
  from b have "stopCalls (newTrace exampleWorld
                 (snd (stopJob exampleEnv ''dummyId'' exampleWorld))) = [''dummyId'']"
    by simp
  with a show ?thesis by blast
qed

text \<open>
  C3. Whatever the list passed in, \<^verbatim>\<open>processHistory\<close> returns the list whose only element
  is the record of its five other arguments. Hence after \<^verbatim>\<open>postTransformationJob\<close>, and
  after a whole run of \<^verbatim>\<open>startTransformByQ\<close>, from any world (any earlier history), the
  history has exactly one entry; after \<^verbatim>\<open>postTransformationJob\<close> it is the entry of the
  current project and job identifier.
\<close>

theorem processHistory_single:
  "processHistory h t m s d i =
     [\<lparr>timestamp = t, module = m, status = s, duration = d, id' = i\<rparr>]
   \<and> length (processHistory h t m s d i) = 1
   \<and> length (history (postTransformationJob env w)) = 1
   \<and> map module (history (postTransformationJob env w)) = [projectName (job w)]
   \<and> map id' (history (postTransformationJob env w)) = [jobId (job w)]
   \<and> length (history (startTransformByQ env w)) = 1"
  by (simp add: processHistory_def postTransformationJob_history startTransformByQ_def
        cleanupTransformationJob_fields Let_def)

text \<open>The same on the example.\<close>

theorem processHistory_single_witness:
  "processHistory [] ''01/01/23, 12:00 AM'' ''my-module'' ''Succeeded'' ''20 sec'' ''123'' =
     [\<lparr>timestamp = ''01/01/23, 12:00 AM'', module = ''my-module'', status = ''Succeeded'',
       duration = ''20 sec'', id' = ''123''\<rparr>]
   \<and> length (history (postTransformationJob exampleEnv
         (postTransformationJob exampleEnv exampleWorld))) = 1
   \<and> length (history (startTransformByQ exampleEnv (startTransformByQ exampleEnv exampleWorld)))
       = 1"
  using processHistory_single [of "[]" "''01/01/23, 12:00 AM''" "''my-module''" "''Succeeded''"
      "''20 sec''" "''123''" exampleEnv "postTransformationJob exampleEnv exampleWorld"]
    processHistory_single [of "[]" "[]" "[]" "[]" "[]" "[]" exampleEnv
      "startTransformByQ exampleEnv exampleWorld"]
  by simp

text \<open>
  C4. After \<^verbatim>\<open>postTransformationJob\<close> each of the four step-progress entries is Succeeded
  if it was Succeeded before and Failed otherwise; none is Pending.
\<close>

theorem postTransformationJob_steps:
  "startJob_step (progress (postTransformationJob env w)) =
     (if startJob_step (progress w) = StepSucceeded then StepSucceeded else StepFailed)
   \<and> buildCode_step (progress (postTransformationJob env w)) =
     (if buildCode_step (progress w) = StepSucceeded then StepSucceeded else StepFailed)
   \<and> generatePlan_step (progress (postTransformationJob env w)) =
     (if generatePlan_step (progress w) = StepSucceeded then StepSucceeded else StepFailed)
   \<and> transformCode_step (progress (postTransformationJob env w)) =
     (if transformCode_step (progress w) = StepSucceeded then StepSucceeded else StepFailed)
   \<and> startJob_step (progress (postTransformationJob env w)) \<noteq> Pending
   \<and> buildCode_step (progress (postTransformationJob env w)) \<noteq> Pending
   \<and> generatePlan_step (progress (postTransformationJob env w)) \<noteq> Pending
   \<and> transformCode_step (progress (postTransformationJob env w)) \<noteq> Pending"
  by (simp add: postTransformationJob_progress failUnfinishedSteps_fields)

text \<open>The same on the example.\<close>

theorem postTransformationJob_steps_witness:
  "progress (postTransformationJob exampleEnv exampleWorld) =
     \<lparr>startJob_step = StepFailed, buildCode_step = StepSucceeded,
      generatePlan_step = StepFailed, transformCode_step = StepFailed\<rparr>"
proof -
  have p: "startJob_step (progress exampleWorld) = Pending"
    "buildCode_step (progress exampleWorld) = StepSucceeded"
    "generatePlan_step (progress exampleWorld) = StepFailed"
    "transformCode_step (progress exampleWorld) = Pending"
    by (simp_all add: exampleWorld_def)
  from postTransformationJob_steps [of exampleEnv exampleWorld] p
  show ?thesis by (cases "progress (postTransformationJob exampleEnv exampleWorld)") simp
qed

text \<open>
  C5. \<^verbatim>\<open>finalizeTransformationJob\<close> on a final status that is neither \<^verbatim>\<open>COMPLETED\<close> nor
  \<^verbatim>\<open>PARTIALLY_COMPLETED\<close> throws its error, sets the step transformCode to Failed,
  records the failure message and leaves the job status as it was. On \<^verbatim>\<open>COMPLETED\<close> it
  returns, with the job status Succeeded and the step transformCode Succeeded; on
  \<^verbatim>\<open>PARTIALLY_COMPLETED\<close> it returns, with the job status PartiallySucceeded and the step
  transformCode Succeeded.
\<close>

theorem finalizeTransformationJob_outcome:
  "(st \<noteq> ''COMPLETED'' \<and> st \<noteq> ''PARTIALLY_COMPLETED'' \<longrightarrow>
      fst (finalizeTransformationJob env st w) =
        Inl (Error ''Job was not successful nor partially successful'')
      \<and> transformCode_step (progress (snd (finalizeTransformationJob env st w))) = StepFailed
      \<and> jobFailureErrorMessage (job (snd (finalizeTransformationJob env st w))) =
          failedToCompleteJobMessage env
      \<and> jobStatus (job (snd (finalizeTransformationJob env st w))) = jobStatus (job w))
   \<and> (st = ''COMPLETED'' \<longrightarrow>
      fst (finalizeTransformationJob env st w) = Inr ()
      \<and> jobStatus (job (snd (finalizeTransformationJob env st w))) = Succeeded
      \<and> transformCode_step (progress (snd (finalizeTransformationJob env st w))) = StepSucceeded)
   \<and> (st = ''PARTIALLY_COMPLETED'' \<longrightarrow>
      fst (finalizeTransformationJob env st w) = Inr ()
      \<and> jobStatus (job (snd (finalizeTransformationJob env st w))) = PartiallySucceeded
      \<and> transformCode_step (progress (snd (finalizeTransformationJob env st w))) = StepSucceeded)"
  by (simp add: finalizeTransformationJob_def Let_def setter_fields await_fields await_job
       isRunning_def)

text \<open>The same on the example.\<close>

theorem finalizeTransformationJob_outcome_witness:
  "fst (finalizeTransformationJob exampleEnv ''FAILED'' runningWorld) =
     Inl (Error ''Job was not successful nor partially successful'')
   \<and> transformCode_step (progress (snd (finalizeTransformationJob exampleEnv ''FAILED''
         runningWorld))) = StepFailed
   \<and> jobFailureErrorMessage (job (snd (finalizeTransformationJob exampleEnv ''FAILED''
         runningWorld))) = ''job failed''
   \<and> jobStatus (job (snd (finalizeTransformationJob exampleEnv ''FAILED'' runningWorld))) =
       Running
   \<and> fst (finalizeTransformationJob exampleEnv ''COMPLETED'' runningWorld) = Inr ()
   \<and> jobStatus (job (snd (finalizeTransformationJob exampleEnv ''COMPLETED'' runningWorld))) =
       Succeeded
   \<and> fst (finalizeTransformationJob exampleEnv ''PARTIALLY_COMPLETED'' runningWorld) = Inr ()
   \<and> jobStatus (job (snd (finalizeTransformationJob exampleEnv ''PARTIALLY_COMPLETED''
         runningWorld))) = PartiallySucceeded
   \<and> transformCode_step (progress (snd (finalizeTransformationJob exampleEnv
         ''PARTIALLY_COMPLETED'' runningWorld))) = StepSucceeded"
proof -
  have run: "jobStatus (job runningWorld) = Running"
    by (simp add: runningWorld_def setStatus_def)
  have msg: "failedToCompleteJobMessage exampleEnv = ''job failed''"
    by (simp add: exampleEnv_def)
  from finalizeTransformationJob_outcome [of "''FAILED''" exampleEnv runningWorld]
       finalizeTransformationJob_outcome [of "''COMPLETED''" exampleEnv runningWorld]
       finalizeTransformationJob_outcome [of "''PARTIALLY_COMPLETED''" exampleEnv runningWorld]
       run msg
  show ?thesis by simp
qed

text \<open>
  C6. Whatever the error, \<^verbatim>\<open>transformationJobErrorHandler\<close> changes nothing when the job
  status is Cancelled: the status stays Cancelled and no notification is shown. Otherwise it
  sets the status to Failed and then shows exactly one error notification; its text is the
  recorded failure message, followed by a space and the failure metadata exactly when the
  metadata is non-empty.
\<close>

theorem transformationJobErrorHandler_outcome:
  "(isCancelled w \<longrightarrow> transformationJobErrorHandler env err w = w)
   \<and> (\<not> isCancelled w \<longrightarrow>
        jobStatus (job (transformationJobErrorHandler env err w)) = Failed
        \<and> trace (transformationJobErrorHandler env err w) =
            trace w @
            [(Failed,
              ShowErrorMessage
                (if jobFailureMetadata (job w) = [] then jobFailureErrorMessage (job w)
                 else jobFailureErrorMessage (job w) @ '' '' @ jobFailureMetadata (job w))
                (amazonQFeedbackText env))])"
  by (simp add: transformationJobErrorHandler_def Let_def setter_fields emit_fields)

text \<open>The same on the example.\<close>

theorem transformationJobErrorHandler_outcome_witness:
  "isCancelled cancelledWorld
   \<and> transformationJobErrorHandler exampleEnv (Error ''Poll job failed'') cancelledWorld =
       cancelledWorld
   \<and> \<not> isCancelled failedWorld
   \<and> jobStatus (job (transformationJobErrorHandler exampleEnv (Error ''Poll job failed'')
         failedWorld)) = Failed
   \<and> trace (transformationJobErrorHandler exampleEnv (Error ''Poll job failed'') failedWorld) =
       [(Failed, ShowErrorMessage ''job failed [jobId: 1]'' ''feedback'')]
   \<and> \<not> isCancelled runningWorld
   \<and> trace (transformationJobErrorHandler exampleEnv (Error ''Poll job failed'') runningWorld) =
       [(Failed, ShowErrorMessage [] ''feedback'')]"
proof -
  have c: "isCancelled cancelledWorld"
    by (simp add: isCancelled_def cancelledWorld_def setStatus_def)
  have f: "\<not> isCancelled failedWorld"
    by (simp add: isCancelled_def failedWorld_def runningWorld_def setStatus_def)
  have r: "\<not> isCancelled runningWorld"
    by (simp add: isCancelled_def runningWorld_def setStatus_def)
  have vals: "jobFailureMetadata (job failedWorld) = ''[jobId: 1]''"
    "jobFailureErrorMessage (job failedWorld) = ''job failed''" "trace failedWorld = []"
    "jobFailureMetadata (job runningWorld) = []" "jobFailureErrorMessage (job runningWorld) = []"
    "trace runningWorld = []" "amazonQFeedbackText exampleEnv = ''feedback''"
    by (simp_all add: example_defs setStatus_def)
  from transformationJobErrorHandler_outcome [of cancelledWorld exampleEnv "Error ''Poll job failed''"]
       transformationJobErrorHandler_outcome [of failedWorld exampleEnv "Error ''Poll job failed''"]
       transformationJobErrorHandler_outcome [of runningWorld exampleEnv "Error ''Poll job failed''"]
       c f r vals
  show ?thesis by simp
qed

text \<open>
  C7. When the job status is Running, \<^verbatim>\<open>stopTransformByQ\<close> returns without an error and
  leaves the status Cancelled, whether the remote stop call succeeds or throws. Every effect
  it issues, the remote stop call included, is issued when the status is already Cancelled;
  the remote stop call is issued once, with the job identifier given (not at all for the
  empty identifier). When the remote stop call succeeds, the one notification is the
  cancellation message; when it throws, the one notification is the message that stopping
  failed.
\<close>

theorem stopTransformByQ_running:
  "jobStatus (job w) = Running \<Longrightarrow>
     fst (stopTransformByQ env jid w) = Inr ()
   \<and> jobStatus (job (snd (stopTransformByQ env jid w))) = Cancelled
   \<and> list_all (\<lambda>(s, ev). s = Cancelled) (newTrace w (snd (stopTransformByQ env jid w)))
   \<and> stopCalls (newTrace w (snd (stopTransformByQ env jid w))) =
       (if jid = [] then [] else [jid])
   \<and> ((\<forall>w'. stopTransformation env w' jid = None) \<longrightarrow>
        errorMessages (newTrace w (snd (stopTransformByQ env jid w))) =
          [transformByQCancelledMessage env])
   \<and> (jid \<noteq> [] \<and> (\<forall>w'. stopTransformation env w' jid \<noteq> None) \<longrightarrow>
        errorMessages (newTrace w (snd (stopTransformByQ env jid w))) =
          [errorStoppingJobMessage env])"
proof -
  assume run: "jobStatus (job w) = Running"
  then have r: "isRunning w" by (simp add: isRunning_def)
  note tr = stopTransformByQ_newTrace [OF r, of env jid]
  have "fst (stopTransformByQ env jid w) = Inr ()"
    by (simp add: stopTransformByQ_def Let_def)
  moreover have "jobStatus (job (snd (stopTransformByQ env jid w))) = Cancelled"
    using r by (simp add: stopTransformByQ_fields)
  moreover have "list_all (\<lambda>(s, ev). s = Cancelled)
                   (newTrace w (snd (stopTransformByQ env jid w)))"
    by (simp add: tr)
  moreover have "stopCalls (newTrace w (snd (stopTransformByQ env jid w))) =
                   (if jid = [] then [] else [jid])"
    by (simp add: tr stopCalls_def)
  moreover have "(\<forall>w'. stopTransformation env w' jid = None) \<longrightarrow>
        errorMessages (newTrace w (snd (stopTransformByQ env jid w))) =
          [transformByQCancelledMessage env]"
    by (simp add: tr errorMessages_def stopJob_isl)
  moreover have "jid \<noteq> [] \<and> (\<forall>w'. stopTransformation env w' jid \<noteq> None) \<longrightarrow>
        errorMessages (newTrace w (snd (stopTransformByQ env jid w))) =
          [errorStoppingJobMessage env]"
    by (simp add: tr errorMessages_def stopJob_isl)
  ultimately show ?thesis by blast
qed

text \<open>The same on the example.\<close>

theorem stopTransformByQ_running_witness:
  "jobStatus (job runningWorld) = Running
   \<and> fst (stopTransformByQ exampleEnv ''abc-123'' runningWorld) = Inr ()
   \<and> jobStatus (job (snd (stopTransformByQ exampleEnv ''abc-123'' runningWorld))) = Cancelled
   \<and> stopCalls (newTrace runningWorld (snd (stopTransformByQ exampleEnv ''abc-123''
         runningWorld))) = [''abc-123'']
   \<and> errorMessages (newTrace runningWorld (snd (stopTransformByQ exampleEnv ''abc-123''
         runningWorld))) = [''cancelled'']
   \<and> fst (stopTransformByQ failingStopEnv ''abc-123'' runningWorld) = Inr ()
   \<and> jobStatus (job (snd (stopTransformByQ failingStopEnv ''abc-123'' runningWorld))) =
       Cancelled
   \<and> errorMessages (newTrace runningWorld (snd (stopTransformByQ failingStopEnv ''abc-123''
         runningWorld))) = [''error stopping'']"
proof -
  have run: "jobStatus (job runningWorld) = Running"
    by (simp add: runningWorld_def setStatus_def)
  have ok: "\<forall>w'. stopTransformation exampleEnv w' ''abc-123'' = None"
    by (simp add: exampleEnv_def)
  have bad: "\<forall>w'. stopTransformation failingStopEnv w' ''abc-123'' \<noteq> None"
    by (simp add: failingStopEnv_def)
  have msgs: "transformByQCancelledMessage exampleEnv = ''cancelled''"
    "errorStoppingJobMessage failingStopEnv = ''error stopping''"
    by (simp_all add: exampleEnv_def failingStopEnv_def)
  from stopTransformByQ_running [OF run, of exampleEnv "''abc-123''"]
       stopTransformByQ_running [OF run, of failingStopEnv "''abc-123''"]
       run ok bad msgs
  show ?thesis by simp
qed

text \<open>
  C8 (amended). In the main sequence, whatever the remote operations answer and whenever the
  user cancels:
  \<^item> no step is begun while the job status is Cancelled: the archive build, the start call
    and the two polls are never issued under that status;
  \<^item> the check of step 1 stands at its head: entered with status Cancelled, or cancelled
    during its two host commands, \<^verbatim>\<open>preTransformationUploadCode\<close> throws the cancellation
    error and has done nothing but these two commands;
  \<^item> the checks of steps 2, 3 and 4 stand at the end of the step before:
    \<^verbatim>\<open>preTransformationUploadCode\<close>, \<^verbatim>\<open>startTransformationJob\<close> and
    \<^verbatim>\<open>pollTransformationStatusUntilPlanReady\<close> return only with a status that is not
    Cancelled;
  \<^item> a sequence that ends with status Cancelled has ended with an error, and a cancellation
    requested at any of the twelve suspension points before the poll for completion always
    ends the sequence with an error;
  \<^item> this error is the cancellation error whenever no remote operation fails in the run
    first: for each step function by itself (five, three and four suspension points), and
    for the sequence as a whole. When an operation fails first, the error need not be the
    cancellation error.
\<close>

theorem cancellation_checked_before_each_step:
  "(guardedTrace (trace w) \<longrightarrow> guardedTrace (trace (snd (transformSteps env w))))
   \<and> (isCancelled w \<longrightarrow>
        fst (preTransformationUploadCode env w) = Inl TransformByQStoppedError
        \<and> newTrace w (snd (preTransformationUploadCode env w)) =
            [(Cancelled, ExecuteCommand ''aws.amazonq.refresh''),
             (Cancelled, ExecuteCommand ''aws.amazonq.transformationHub.focus'')])
   \<and> (cancelRequested env w 2 \<longrightarrow>
        preTransformationUploadCode env w =
          (Inl TransformByQStoppedError,
           await env (ExecuteCommand ''aws.amazonq.transformationHub.focus'')
             (await env (ExecuteCommand ''aws.amazonq.refresh'') w)))
   \<and> (\<not> isl (fst (preTransformationUploadCode env w)) \<longrightarrow>
        \<not> isCancelled (snd (preTransformationUploadCode env w)))
   \<and> (\<not> isl (fst (startTransformationJob env u w)) \<longrightarrow>
        \<not> isCancelled (snd (startTransformationJob env u w)))
   \<and> (\<not> isl (fst (pollTransformationStatusUntilPlanReady env j w)) \<longrightarrow>
        \<not> isCancelled (snd (pollTransformationStatusUntilPlanReady env j w)))
   \<and> (isCancelled (snd (transformSteps env w)) \<longrightarrow> isl (fst (transformSteps env w)))
   \<and> (cancelRequested env w 12 \<longrightarrow> isl (fst (transformSteps env w)))
   \<and> (uploadSucceeds env w \<and> cancelRequested env w 5 \<longrightarrow>
        fst (preTransformationUploadCode env w) = Inl TransformByQStoppedError)
   \<and> (startSucceeds env u w \<and> cancelRequested env w 3 \<longrightarrow>
        fst (startTransformationJob env u w) = Inl TransformByQStoppedError)
   \<and> (planSucceeds env j w \<and> cancelRequested env w 4 \<longrightarrow>
        fst (pollTransformationStatusUntilPlanReady env j w) = Inl TransformByQStoppedError)
   \<and> (noRemoteFailure env w \<and> cancelRequested env w 12 \<longrightarrow>
        fst (transformSteps env w) = Inl TransformByQStoppedError)"
  using transformSteps_guarded [of w env] pre_cancelled_at_entry [of w env]
    pre_early [of env w]
    pre_returns_uncancelled [of env w] start_returns_uncancelled [of env u w]
    pollPlan_returns_uncancelled [of env j w] transformSteps_cancelled_aborts [of env w]
    transformSteps_aborts [of env w] pre_in_run [of env w] start_in_run [of env u w]
    pollPlan_in_run [of env j w] transformSteps_in_run [of env w]
  by blast

text \<open>The same on the example.\<close>

theorem cancellation_checked_before_each_step_witness:
  "guardedTrace (trace runningWorld)
   \<and> guardedTrace (trace (snd (transformSteps cancellingEnv runningWorld)))
   \<and> noRemoteFailure cancellingEnv runningWorld
   \<and> cancelRequested cancellingEnv runningWorld 12
   \<and> fst (transformSteps cancellingEnv runningWorld) = Inl TransformByQStoppedError
   \<and> map snd (trace (snd (transformSteps cancellingEnv runningWorld))) =
       [SetInterval, ExecuteCommand ''aws.amazonq.refresh'',
        ExecuteCommand ''aws.amazonq.transformationHub.focus'', ZipCode,
        UploadPayload ''payload.zip'', Sleep 2000, StartJob ''upload-1'',
        ExecuteCommand ''aws.amazonq.refresh'', ExecuteCommand ''aws.amazonq.refresh'',
        SetContext ''gumby.isStopButtonAvailable'' False, StopTransformation ''job&lt;1>'',
        ShowErrorMessage ''cancelled'' ''feedback'',
        TelemetryEmit ''codeTransform_jobIsCancelledByUser'', Sleep 2000]
   \<and> noRemoteFailure observingPollStartEnv runningWorld
   \<and> cancelRequested observingPollStartEnv runningWorld 12
   \<and> fst (transformSteps observingPollStartEnv runningWorld) = Inl TransformByQStoppedError
   \<and> noRemoteFailure pollCancelEnv runningWorld
   \<and> cancelRequested pollCancelEnv runningWorld 12
   \<and> fst (transformSteps pollCancelEnv runningWorld) = Inl TransformByQStoppedError
   \<and> uploadSucceeds zipCancelEnv runningWorld
   \<and> cancelRequested zipCancelEnv runningWorld 5
   \<and> fst (preTransformationUploadCode zipCancelEnv runningWorld) =
       Inl TransformByQStoppedError
   \<and> (Cancelled, UploadPayload ''payload.zip'')
       \<in> set (trace (snd (preTransformationUploadCode zipCancelEnv runningWorld)))
   \<and> isCancelled cancelledWorld
   \<and> fst (preTransformationUploadCode exampleEnv cancelledWorld) =
       Inl TransformByQStoppedError
   \<and> fst (transformSteps exampleEnv runningWorld) = Inr ()
   \<and> \<not> isCancelled (snd (transformSteps exampleEnv runningWorld))"
proof -
  have g: "guardedTrace (trace runningWorld)"
    by (simp add: guardedTrace_def example_defs setStatus_def)
  have run: "isRunning runningWorld" and t0: "tick runningWorld = 0"
    by (simp_all add: isRunning_def example_defs setStatus_def)
  have req: "cancelRequested cancellingEnv runningWorld 12"
    by (rule requested_at [OF run, of _ 6]) (simp_all add: t0 cancellingEnv_def)
  have req_o: "cancelRequested observingPollStartEnv runningWorld 12"
    by (rule requested_at [OF run, of _ 6]) (simp_all add: t0 observingPollStartEnv_def)
  have req_p: "cancelRequested pollCancelEnv runningWorld 12"
    by (rule requested_at [OF run, of _ 8]) (simp_all add: t0 pollCancelEnv_def)
  have req_z: "cancelRequested zipCancelEnv runningWorld 5"
    by (rule requested_at [OF run, of _ 2]) (simp_all add: t0 zipCancelEnv_def)
  have ok: "noRemoteFailure cancellingEnv runningWorld"
    by (simp add: run_defs model_defs example_defs)
  have ok_o: "noRemoteFailure observingPollStartEnv runningWorld"
    by (simp add: run_defs model_defs example_defs)
  have ok_p: "noRemoteFailure pollCancelEnv runningWorld"
    by (simp add: run_defs model_defs example_defs)
  have ok_z: "uploadSucceeds zipCancelEnv runningWorld"
    by (simp add: run_defs model_defs example_defs)
  have c: "isCancelled cancelledWorld"
    by (simp add: isCancelled_def cancelledWorld_def setStatus_def)
  have tr: "map snd (trace (snd (transformSteps cancellingEnv runningWorld))) =
       [SetInterval, ExecuteCommand ''aws.amazonq.refresh'',
        ExecuteCommand ''aws.amazonq.transformationHub.focus'', ZipCode,
        UploadPayload ''payload.zip'', Sleep 2000, StartJob ''upload-1'',
        ExecuteCommand ''aws.amazonq.refresh'', ExecuteCommand ''aws.amazonq.refresh'',
        SetContext ''gumby.isStopButtonAvailable'' False, StopTransformation ''job&lt;1>'',
        ShowErrorMessage ''cancelled'' ''feedback'',
        TelemetryEmit ''codeTransform_jobIsCancelledByUser'', Sleep 2000]"
    by (simp add: model_defs example_defs)
  have "trace (snd (preTransformationUploadCode zipCancelEnv runningWorld)) =
       [(Running, ExecuteCommand ''aws.amazonq.refresh''),
        (Running, ExecuteCommand ''aws.amazonq.transformationHub.focus''), (Running, ZipCode),
        (Cancelled, ExecuteCommand ''aws.amazonq.refresh''),
        (Cancelled, SetContext ''gumby.isStopButtonAvailable'' False),
        (Cancelled, ShowErrorMessage ''cancelled'' ''feedback''),
        (Cancelled, TelemetryEmit ''codeTransform_jobIsCancelledByUser''),
        (Cancelled, UploadPayload ''payload.zip''), (Cancelled, Sleep 2000)]"
    by (simp add: run_defs model_defs example_defs)
  then have upl: "(Cancelled, UploadPayload ''payload.zip'')
       \<in> set (trace (snd (preTransformationUploadCode zipCancelEnv runningWorld)))"
    by simp
  have happy: "fst (transformSteps exampleEnv runningWorld) = Inr ()"
    "\<not> isCancelled (snd (transformSteps exampleEnv runningWorld))"
    by (simp_all add: model_defs example_defs)
  have g': "guardedTrace (trace (snd (transformSteps cancellingEnv runningWorld)))"
    using cancellation_checked_before_each_step
        [where w = runningWorld and env = cancellingEnv, THEN conjunct1] g
    by blast
  have res: "fst (transformSteps cancellingEnv runningWorld) = Inl TransformByQStoppedError"
    using cancellation_checked_before_each_step
        [where w = runningWorld and env = cancellingEnv,
         THEN conjunct2, THEN conjunct2, THEN conjunct2, THEN conjunct2,
         THEN conjunct2, THEN conjunct2, THEN conjunct2, THEN conjunct2,
         THEN conjunct2, THEN conjunct2, THEN conjunct2] ok req
    by blast
  have res_o: "fst (transformSteps observingPollStartEnv runningWorld) =
                 Inl TransformByQStoppedError"
    using cancellation_checked_before_each_step
        [where w = runningWorld and env = observingPollStartEnv,
         THEN conjunct2, THEN conjunct2, THEN conjunct2, THEN conjunct2,
         THEN conjunct2, THEN conjunct2, THEN conjunct2, THEN conjunct2,
         THEN conjunct2, THEN conjunct2, THEN conjunct2] ok_o req_o
    by blast
  have res_p: "fst (transformSteps pollCancelEnv runningWorld) = Inl TransformByQStoppedError"
    using cancellation_checked_before_each_step
        [where w = runningWorld and env = pollCancelEnv,
         THEN conjunct2, THEN conjunct2, THEN conjunct2, THEN conjunct2,
         THEN conjunct2, THEN conjunct2, THEN conjunct2, THEN conjunct2,
         THEN conjunct2, THEN conjunct2, THEN conjunct2] ok_p req_p
    by blast
  have res_z: "fst (preTransformationUploadCode zipCancelEnv runningWorld) =
                 Inl TransformByQStoppedError"
    using cancellation_checked_before_each_step
        [where w = runningWorld and env = zipCancelEnv,
         THEN conjunct2, THEN conjunct2, THEN conjunct2, THEN conjunct2,
         THEN conjunct2, THEN conjunct2, THEN conjunct2, THEN conjunct2,
         THEN conjunct1] ok_z req_z
    by blast
  have res_c: "fst (preTransformationUploadCode exampleEnv cancelledWorld) =
                 Inl TransformByQStoppedError"
    using cancellation_checked_before_each_step
        [where w = cancelledWorld and env = exampleEnv, THEN conjunct2, THEN conjunct1] c
    by blast
  show ?thesis
    apply (insert g g' ok req res tr ok_o req_o res_o ok_p req_p res_p ok_z req_z res_z upl c
             res_c happy)
    apply (intro conjI)
    apply assumption+
    done
qed

text \<open>
  C8 as stated fails in its last part: a cancellation requested before a step starts does
  not always end the run with the cancellation error. In the run below the user presses stop
  during the poll for the plan, so before step 4 starts; the poller observes the
  cancellation and throws, \<^verbatim>\<open>pollTransformationStatusUntilPlanReady\<close> catches that and throws
  \<^verbatim>\<open>Error('Poll job failed')\<close>, and the sequence ends with this error, not with
  \<^verbatim>\<open>TransformByQStoppedError\<close>. Step 4 issues no remote call all the same, and the status is
  Cancelled, which is what the error handler goes by.
\<close>

theorem cancellation_error_counterexample:
  "cancelRequested observingPollEnv runningWorld 12
   \<and> fst (transformSteps observingPollEnv runningWorld) = Inl (Error ''Poll job failed'')
   \<and> fst (transformSteps observingPollEnv runningWorld) \<noteq> Inl TransformByQStoppedError
   \<and> isCancelled (snd (transformSteps observingPollEnv runningWorld))
   \<and> \<not> noRemoteFailure observingPollEnv runningWorld
   \<and> map snd (trace (snd (transformSteps observingPollEnv runningWorld))) =
       [SetInterval, ExecuteCommand ''aws.amazonq.refresh'',
        ExecuteCommand ''aws.amazonq.transformationHub.focus'', ZipCode,
        UploadPayload ''payload.zip'', Sleep 2000, StartJob ''upload-1'',
        ExecuteCommand ''aws.amazonq.refresh'', Sleep 2000,
        PollTransformationJob ''job<1>'' [''PLANNED''],
        ExecuteCommand ''aws.amazonq.refresh'',
        SetContext ''gumby.isStopButtonAvailable'' False, StopTransformation ''job&lt;1>'',
        ShowErrorMessage ''cancelled'' ''feedback'',
        TelemetryEmit ''codeTransform_jobIsCancelledByUser'']"
proof -
  have run: "isRunning runningWorld" and t0: "tick runningWorld = 0"
    by (simp_all add: isRunning_def example_defs setStatus_def)
  have req: "cancelRequested observingPollEnv runningWorld 12"
    by (rule requested_at [OF run, of _ 8]) (simp_all add: t0 observingPollEnv_def)
  have bad: "\<not> noRemoteFailure observingPollEnv runningWorld"
    by (simp add: run_defs model_defs example_defs)
  have res: "fst (transformSteps observingPollEnv runningWorld) = Inl (Error ''Poll job failed'')"
    "isCancelled (snd (transformSteps observingPollEnv runningWorld))"
    "map snd (trace (snd (transformSteps observingPollEnv runningWorld))) =
       [SetInterval, ExecuteCommand ''aws.amazonq.refresh'',
        ExecuteCommand ''aws.amazonq.transformationHub.focus'', ZipCode,
        UploadPayload ''payload.zip'', Sleep 2000, StartJob ''upload-1'',
        ExecuteCommand ''aws.amazonq.refresh'', Sleep 2000,
        PollTransformationJob ''job<1>'' [''PLANNED''],
        ExecuteCommand ''aws.amazonq.refresh'',
        SetContext ''gumby.isStopButtonAvailable'' False, StopTransformation ''job&lt;1>'',
        ShowErrorMessage ''cancelled'' ''feedback'',
        TelemetryEmit ''codeTransform_jobIsCancelledByUser'']"
    by (simp_all add: model_defs example_defs)
  from req bad res show ?thesis by simp
qed

text \<open>
  C9. When the job status is not Running, \<^verbatim>\<open>stopTransformByQ\<close> returns without an error
  and returns the world it was given: no field of the job state changes and nothing is added
  to the log (no remote stop call, no notification).
\<close>

theorem stopTransformByQ_not_running:
  "jobStatus (job w) \<noteq> Running \<Longrightarrow>
     stopTransformByQ env jid w = (Inr (), w)
     \<and> newTrace w (snd (stopTransformByQ env jid w)) = []"
  by (simp add: stopTransformByQ_def isRunning_def newTrace_def)

text \<open>The same on the example.\<close>

theorem stopTransformByQ_not_running_witness:
  "jobStatus (job exampleWorld) \<noteq> Running
   \<and> stopTransformByQ exampleEnv ''abc-123'' exampleWorld = (Inr (), exampleWorld)
   \<and> newTrace exampleWorld (snd (stopTransformByQ exampleEnv ''abc-123'' exampleWorld)) = []"
proof -
  have idle: "jobStatus (job exampleWorld) \<noteq> Running"
    by (simp add: exampleWorld_def)
  from stopTransformByQ_not_running [OF idle, of exampleEnv "''abc-123''"] idle
  show ?thesis by blast
qed

text \<open>
  C10. When the start call succeeds with job identifier \<open>j\<close>, \<^verbatim>\<open>startTransformationJob\<close>
  leaves the encoded identifier \<open>encodeHTML j\<close> in the job state, and either returns the
  raw \<open>j\<close> or, if cancellation was requested meanwhile, throws the cancellation error.
  Hence for every \<open>j\<close> that the encoding changes, the identifier in the job state differs
  from the one returned for the remote calls; and the history entry that
  \<^verbatim>\<open>postTransformationJob\<close> writes carries the encoded one.
\<close>

theorem startTransformationJob_stores_encoded:
  "startJob env (await env (StartJob uploadId) w) uploadId = Inr j \<Longrightarrow>
     jobId (job (snd (startTransformationJob env uploadId w))) = encodeHTML env j
   \<and> fst (startTransformationJob env uploadId w) =
       (if isCancelled (snd (startTransformationJob env uploadId w))
        then Inl TransformByQStoppedError else Inr j)
   \<and> (encodeHTML env j \<noteq> j \<longrightarrow>
        jobId (job (snd (startTransformationJob env uploadId w))) \<noteq> j)
   \<and> map id' (history (postTransformationJob env (snd (startTransformationJob env uploadId w))))
       = [encodeHTML env j]"
  by (simp add: startTransformationJob_def Let_def throwIfCancelled_def await_job_fields
        setter_fields postTransformationJob_history processHistory_def)

text \<open>The same on the example.\<close>

theorem startTransformationJob_stores_encoded_witness:
  "startJob exampleEnv (await exampleEnv (StartJob ''upload-1'') runningWorld) ''upload-1'' =
     Inr ''job<1>''
   \<and> encodeHTML exampleEnv ''job<1>'' = ''job&lt;1>''
   \<and> jobId (job (snd (startTransformationJob exampleEnv ''upload-1'' runningWorld))) =
       ''job&lt;1>''
   \<and> fst (startTransformationJob exampleEnv ''upload-1'' runningWorld) = Inr ''job<1>''
   \<and> map id' (history (postTransformationJob exampleEnv
         (snd (startTransformationJob exampleEnv ''upload-1'' runningWorld)))) = [''job&lt;1>'']"
proof -
  have s: "startJob exampleEnv (await exampleEnv (StartJob ''upload-1'') runningWorld)
             ''upload-1'' = Inr ''job<1>''"
    by (simp add: exampleEnv_def)
  have e: "encodeHTML exampleEnv ''job<1>'' = ''job&lt;1>''"
    by (simp add: exampleEnv_def exampleEncodeHTML_def)
  have n: "\<not> isCancelled (snd (startTransformationJob exampleEnv ''upload-1'' runningWorld))"
    by (simp add: model_defs example_defs)
  from startTransformationJob_stores_encoded [OF s] s e n
  show ?thesis by simp
qed

end
